theory Spec2Isabelle
  imports Main "HOL-Library.Word"
begin

section \<open>JavaScript strings\<close>

text \<open>
  A JavaScript string is a sequence of UTF-16 code units. String literals of the source are
  written \<open>js ''...''\<close>.
\<close>

type_synonym code_unit = "16 word"
type_synonym jsstring = "code_unit list"

definition js :: "string \<Rightarrow> jsstring" where
  "js s = map (\<lambda>c. of_char c) s"

text \<open>
  The characters matched by \<^verbatim>\<open>\s\<close> in a regular expression and stripped by
  \<^verbatim>\<open>String.prototype.trim\<close>: ECMAScript's WhiteSpace and LineTerminator code points
  (TAB, LF, VT, FF, CR, SP, NBSP, U+1680, U+2000..U+200A, LS, PS, U+202F, U+205F, U+3000,
  U+FEFF).
\<close>

definition isWhiteSpace :: "code_unit \<Rightarrow> bool" where
  "isWhiteSpace c =
     (c = 0x09 \<or> c = 0x0A \<or> c = 0x0B \<or> c = 0x0C \<or> c = 0x0D \<or> c = 0x20 \<or> c = 0xA0
      \<or> c = 0x1680 \<or> (0x2000 \<le> c \<and> c \<le> 0x200A) \<or> c = 0x2028 \<or> c = 0x2029
      \<or> c = 0x202F \<or> c = 0x205F \<or> c = 0x3000 \<or> c = 0xFEFF)"

text \<open>\<^verbatim>\<open>s.trim()\<close>: white space removed from both ends.\<close>

definition trim :: "jsstring \<Rightarrow> jsstring" where
  "trim s = rev (dropWhile isWhiteSpace (rev (dropWhile isWhiteSpace s)))"


text \<open>
  \<^verbatim>\<open>s.replace(/\s+/g, ".")\<close>: scanning from the left, every maximal run of white space
  is replaced by one full stop.
\<close>

function replace_ws :: "jsstring \<Rightarrow> jsstring" where
  "replace_ws [] = []"
| "replace_ws (c # cs) =
     (if isWhiteSpace c then 0x2E # replace_ws (dropWhile isWhiteSpace cs)
      else c # replace_ws cs)"
  by pat_completeness auto
termination
  by (relation "measure length") (auto simp: length_dropWhile_le less_Suc_eq_le)

subsection \<open>Lower case\<close>

text \<open>
  \<^verbatim>\<open>String.prototype.toLowerCase\<close> turns the string into code points, applies the
  Unicode default lower-case conversion, and turns the code points into a string again.
  Code points are natural numbers here.
\<close>

definition isLeadSurrogate :: "code_unit \<Rightarrow> bool" where
  "isLeadSurrogate u = (0xD800 \<le> u \<and> u \<le> 0xDBFF)"

definition isTrailSurrogate :: "code_unit \<Rightarrow> bool" where
  "isTrailSurrogate u = (0xDC00 \<le> u \<and> u \<le> 0xDFFF)"

text \<open>
  A lead surrogate followed by a trail surrogate is one code point; every other code unit,
  an unpaired surrogate too, is the code point of its own value.
\<close>

fun StringToCodePoints :: "jsstring \<Rightarrow> nat list" where
  "StringToCodePoints [] = []"
| "StringToCodePoints [u] = [unat u]"
| "StringToCodePoints (u # v # us) =
     (if isLeadSurrogate u \<and> isTrailSurrogate v
      then (0x10000 + (unat u - 0xD800) * 0x400 + (unat v - 0xDC00)) # StringToCodePoints us
      else unat u # StringToCodePoints (v # us))"

definition UTF16EncodeCodePoint :: "nat \<Rightarrow> jsstring" where
  "UTF16EncodeCodePoint cp =
     (if cp < 0x10000 then [of_nat cp]
      else [of_nat (0xD800 + (cp - 0x10000) div 0x400),
            of_nat (0xDC00 + (cp - 0x10000) mod 0x400)])"

definition CodePointsToString :: "nat list \<Rightarrow> jsstring" where
  "CodePointsToString cps = concat (map UTF16EncodeCodePoint cps)"

text \<open>
  The simple lower-case mappings of the Unicode Character Database (version 15.0), as rows
  \<open>(lo, hi, step, target)\<close>: the code points \<open>lo\<close>, \<open>lo + step\<close>, ... up to
  \<open>hi\<close> map to \<open>target\<close>, \<open>target + step\<close>, ...; every other code point maps to itself.
\<close>

definition Lowercase_Mapping :: "(nat \<times> nat \<times> nat \<times> nat) list" where
  "Lowercase_Mapping =
     [
      (0x41, 0x5A, 1, 0x61), (0xC0, 0xD6, 1, 0xE0), (0xD8, 0xDE, 1, 0xF8),
      (0x100, 0x12E, 2, 0x101), (0x132, 0x136, 2, 0x133), (0x139, 0x147, 2, 0x13A),
      (0x14A, 0x176, 2, 0x14B), (0x178, 0x178, 1, 0xFF), (0x179, 0x17D, 2, 0x17A),
      (0x181, 0x181, 1, 0x253), (0x182, 0x184, 2, 0x183), (0x186, 0x186, 1, 0x254),
      (0x187, 0x187, 1, 0x188), (0x189, 0x18A, 1, 0x256), (0x18B, 0x18B, 1, 0x18C),
      (0x18E, 0x18E, 1, 0x1DD), (0x18F, 0x18F, 1, 0x259), (0x190, 0x190, 1, 0x25B),
      (0x191, 0x191, 1, 0x192), (0x193, 0x193, 1, 0x260), (0x194, 0x194, 1, 0x263),
      (0x196, 0x196, 1, 0x269), (0x197, 0x197, 1, 0x268), (0x198, 0x198, 1, 0x199),
      (0x19C, 0x19C, 1, 0x26F), (0x19D, 0x19D, 1, 0x272), (0x19F, 0x19F, 1, 0x275),
      (0x1A0, 0x1A4, 2, 0x1A1), (0x1A6, 0x1A6, 1, 0x280), (0x1A7, 0x1A7, 1, 0x1A8),
      (0x1A9, 0x1A9, 1, 0x283), (0x1AC, 0x1AC, 1, 0x1AD), (0x1AE, 0x1AE, 1, 0x288),
      (0x1AF, 0x1AF, 1, 0x1B0), (0x1B1, 0x1B2, 1, 0x28A), (0x1B3, 0x1B5, 2, 0x1B4),
      (0x1B7, 0x1B7, 1, 0x292), (0x1B8, 0x1B8, 1, 0x1B9), (0x1BC, 0x1BC, 1, 0x1BD),
      (0x1C4, 0x1C4, 1, 0x1C6), (0x1C5, 0x1C5, 1, 0x1C6), (0x1C7, 0x1C7, 1, 0x1C9),
      (0x1C8, 0x1C8, 1, 0x1C9), (0x1CA, 0x1CA, 1, 0x1CC), (0x1CB, 0x1DB, 2, 0x1CC),
      (0x1DE, 0x1EE, 2, 0x1DF), (0x1F1, 0x1F1, 1, 0x1F3), (0x1F2, 0x1F4, 2, 0x1F3),
      (0x1F6, 0x1F6, 1, 0x195), (0x1F7, 0x1F7, 1, 0x1BF), (0x1F8, 0x21E, 2, 0x1F9),
      (0x220, 0x220, 1, 0x19E), (0x222, 0x232, 2, 0x223), (0x23A, 0x23A, 1, 0x2C65),
      (0x23B, 0x23B, 1, 0x23C), (0x23D, 0x23D, 1, 0x19A), (0x23E, 0x23E, 1, 0x2C66),
      (0x241, 0x241, 1, 0x242), (0x243, 0x243, 1, 0x180), (0x244, 0x244, 1, 0x289),
      (0x245, 0x245, 1, 0x28C), (0x246, 0x24E, 2, 0x247), (0x370, 0x372, 2, 0x371),
      (0x376, 0x376, 1, 0x377), (0x37F, 0x37F, 1, 0x3F3), (0x386, 0x386, 1, 0x3AC),
      (0x388, 0x38A, 1, 0x3AD), (0x38C, 0x38C, 1, 0x3CC), (0x38E, 0x38F, 1, 0x3CD),
      (0x391, 0x3A1, 1, 0x3B1), (0x3A3, 0x3AB, 1, 0x3C3), (0x3CF, 0x3CF, 1, 0x3D7),
      (0x3D8, 0x3EE, 2, 0x3D9), (0x3F4, 0x3F4, 1, 0x3B8), (0x3F7, 0x3F7, 1, 0x3F8),
      (0x3F9, 0x3F9, 1, 0x3F2), (0x3FA, 0x3FA, 1, 0x3FB), (0x3FD, 0x3FF, 1, 0x37B),
      (0x400, 0x40F, 1, 0x450), (0x410, 0x42F, 1, 0x430), (0x460, 0x480, 2, 0x461),
      (0x48A, 0x4BE, 2, 0x48B), (0x4C0, 0x4C0, 1, 0x4CF), (0x4C1, 0x4CD, 2, 0x4C2),
      (0x4D0, 0x52E, 2, 0x4D1), (0x531, 0x556, 1, 0x561), (0x10A0, 0x10C5, 1, 0x2D00),
      (0x10C7, 0x10C7, 1, 0x2D27), (0x10CD, 0x10CD, 1, 0x2D2D), (0x13A0, 0x13EF, 1, 0xAB70),
      (0x13F0, 0x13F5, 1, 0x13F8), (0x1C90, 0x1CBA, 1, 0x10D0), (0x1CBD, 0x1CBF, 1, 0x10FD),
      (0x1E00, 0x1E94, 2, 0x1E01), (0x1E9E, 0x1E9E, 1, 0xDF), (0x1EA0, 0x1EFE, 2, 0x1EA1),
      (0x1F08, 0x1F0F, 1, 0x1F00), (0x1F18, 0x1F1D, 1, 0x1F10), (0x1F28, 0x1F2F, 1, 0x1F20),
      (0x1F38, 0x1F3F, 1, 0x1F30), (0x1F48, 0x1F4D, 1, 0x1F40), (0x1F59, 0x1F5F, 2, 0x1F51),
      (0x1F68, 0x1F6F, 1, 0x1F60), (0x1F88, 0x1F8F, 1, 0x1F80), (0x1F98, 0x1F9F, 1, 0x1F90),
      (0x1FA8, 0x1FAF, 1, 0x1FA0), (0x1FB8, 0x1FB9, 1, 0x1FB0), (0x1FBA, 0x1FBB, 1, 0x1F70),
      (0x1FBC, 0x1FBC, 1, 0x1FB3), (0x1FC8, 0x1FCB, 1, 0x1F72), (0x1FCC, 0x1FCC, 1, 0x1FC3),
      (0x1FD8, 0x1FD9, 1, 0x1FD0), (0x1FDA, 0x1FDB, 1, 0x1F76), (0x1FE8, 0x1FE9, 1, 0x1FE0),
      (0x1FEA, 0x1FEB, 1, 0x1F7A), (0x1FEC, 0x1FEC, 1, 0x1FE5), (0x1FF8, 0x1FF9, 1, 0x1F78),
      (0x1FFA, 0x1FFB, 1, 0x1F7C), (0x1FFC, 0x1FFC, 1, 0x1FF3), (0x2126, 0x2126, 1, 0x3C9),
      (0x212A, 0x212A, 1, 0x6B), (0x212B, 0x212B, 1, 0xE5), (0x2132, 0x2132, 1, 0x214E),
      (0x2160, 0x216F, 1, 0x2170), (0x2183, 0x2183, 1, 0x2184), (0x24B6, 0x24CF, 1, 0x24D0),
      (0x2C00, 0x2C2F, 1, 0x2C30), (0x2C60, 0x2C60, 1, 0x2C61), (0x2C62, 0x2C62, 1, 0x26B),
      (0x2C63, 0x2C63, 1, 0x1D7D), (0x2C64, 0x2C64, 1, 0x27D), (0x2C67, 0x2C6B, 2, 0x2C68),
      (0x2C6D, 0x2C6D, 1, 0x251), (0x2C6E, 0x2C6E, 1, 0x271), (0x2C6F, 0x2C6F, 1, 0x250),
      (0x2C70, 0x2C70, 1, 0x252), (0x2C72, 0x2C72, 1, 0x2C73), (0x2C75, 0x2C75, 1, 0x2C76),
      (0x2C7E, 0x2C7F, 1, 0x23F), (0x2C80, 0x2CE2, 2, 0x2C81), (0x2CEB, 0x2CED, 2, 0x2CEC),
      (0x2CF2, 0x2CF2, 1, 0x2CF3), (0xA640, 0xA66C, 2, 0xA641), (0xA680, 0xA69A, 2, 0xA681),
      (0xA722, 0xA72E, 2, 0xA723), (0xA732, 0xA76E, 2, 0xA733), (0xA779, 0xA77B, 2, 0xA77A),
      (0xA77D, 0xA77D, 1, 0x1D79), (0xA77E, 0xA786, 2, 0xA77F), (0xA78B, 0xA78B, 1, 0xA78C),
      (0xA78D, 0xA78D, 1, 0x265), (0xA790, 0xA792, 2, 0xA791), (0xA796, 0xA7A8, 2, 0xA797),
      (0xA7AA, 0xA7AA, 1, 0x266), (0xA7AB, 0xA7AB, 1, 0x25C), (0xA7AC, 0xA7AC, 1, 0x261),
      (0xA7AD, 0xA7AD, 1, 0x26C), (0xA7AE, 0xA7AE, 1, 0x26A), (0xA7B0, 0xA7B0, 1, 0x29E),
      (0xA7B1, 0xA7B1, 1, 0x287), (0xA7B2, 0xA7B2, 1, 0x29D), (0xA7B3, 0xA7B3, 1, 0xAB53),
      (0xA7B4, 0xA7C2, 2, 0xA7B5), (0xA7C4, 0xA7C4, 1, 0xA794), (0xA7C5, 0xA7C5, 1, 0x282),
      (0xA7C6, 0xA7C6, 1, 0x1D8E), (0xA7C7, 0xA7C9, 2, 0xA7C8), (0xA7D0, 0xA7D0, 1, 0xA7D1),
      (0xA7D6, 0xA7D8, 2, 0xA7D7), (0xA7F5, 0xA7F5, 1, 0xA7F6), (0xFF21, 0xFF3A, 1, 0xFF41),
      (0x10400, 0x10427, 1, 0x10428), (0x104B0, 0x104D3, 1, 0x104D8), (0x10570, 0x1057A, 1, 0x10597),
      (0x1057C, 0x1058A, 1, 0x105A3), (0x1058C, 0x10592, 1, 0x105B3), (0x10594, 0x10595, 1, 0x105BB),
      (0x10C80, 0x10CB2, 1, 0x10CC0), (0x118A0, 0x118BF, 1, 0x118C0), (0x16E40, 0x16E5F, 1, 0x16E60),
      (0x1E900, 0x1E921, 1, 0x1E922)]"

text \<open>The code points with the property Cased, as ranges \<open>(lo, hi)\<close>.\<close>

definition Cased :: "(nat \<times> nat) list" where
  "Cased =
     [
      (0x41, 0x5A), (0x61, 0x7A), (0xAA, 0xAA), (0xB5, 0xB5), (0xBA, 0xBA),
      (0xC0, 0xD6), (0xD8, 0xF6), (0xF8, 0x1BA), (0x1BC, 0x1BF), (0x1C4, 0x293),
      (0x295, 0x2B8), (0x2C0, 0x2C1), (0x2E0, 0x2E4), (0x345, 0x345), (0x370, 0x373),
      (0x376, 0x377), (0x37A, 0x37D), (0x37F, 0x37F), (0x386, 0x386), (0x388, 0x38A),
      (0x38C, 0x38C), (0x38E, 0x3A1), (0x3A3, 0x3F5), (0x3F7, 0x481), (0x48A, 0x52F),
      (0x531, 0x556), (0x560, 0x588), (0x10A0, 0x10C5), (0x10C7, 0x10C7), (0x10CD, 0x10CD),
      (0x10D0, 0x10FA), (0x10FC, 0x10FF), (0x13A0, 0x13F5), (0x13F8, 0x13FD), (0x1C80, 0x1C88),
      (0x1C90, 0x1CBA), (0x1CBD, 0x1CBF), (0x1D00, 0x1DBF), (0x1E00, 0x1F15), (0x1F18, 0x1F1D),
      (0x1F20, 0x1F45), (0x1F48, 0x1F4D), (0x1F50, 0x1F57), (0x1F59, 0x1F59), (0x1F5B, 0x1F5B),
      (0x1F5D, 0x1F5D), (0x1F5F, 0x1F7D), (0x1F80, 0x1FB4), (0x1FB6, 0x1FBC), (0x1FBE, 0x1FBE),
      (0x1FC2, 0x1FC4), (0x1FC6, 0x1FCC), (0x1FD0, 0x1FD3), (0x1FD6, 0x1FDB), (0x1FE0, 0x1FEC),
      (0x1FF2, 0x1FF4), (0x1FF6, 0x1FFC), (0x2071, 0x2071), (0x207F, 0x207F), (0x2090, 0x209C),
      (0x2102, 0x2102), (0x2107, 0x2107), (0x210A, 0x2113), (0x2115, 0x2115), (0x2119, 0x211D),
      (0x2124, 0x2124), (0x2126, 0x2126), (0x2128, 0x2128), (0x212A, 0x212D), (0x212F, 0x2134),
      (0x2139, 0x2139), (0x213C, 0x213F), (0x2145, 0x2149), (0x214E, 0x214E), (0x2160, 0x217F),
      (0x2183, 0x2184), (0x24B6, 0x24E9), (0x2C00, 0x2CE4), (0x2CEB, 0x2CEE), (0x2CF2, 0x2CF3),
      (0x2D00, 0x2D25), (0x2D27, 0x2D27), (0x2D2D, 0x2D2D), (0xA640, 0xA66D), (0xA680, 0xA69D),
      (0xA722, 0xA787), (0xA78B, 0xA78E), (0xA790, 0xA7CA), (0xA7D0, 0xA7D1), (0xA7D3, 0xA7D3),
      (0xA7D5, 0xA7D9), (0xA7F2, 0xA7F6), (0xA7F8, 0xA7FA), (0xAB30, 0xAB5A), (0xAB5C, 0xAB69),
      (0xAB70, 0xABBF), (0xFB00, 0xFB06), (0xFB13, 0xFB17), (0xFF21, 0xFF3A), (0xFF41, 0xFF5A),
      (0x10400, 0x1044F), (0x104B0, 0x104D3), (0x104D8, 0x104FB), (0x10570, 0x1057A), (0x1057C, 0x1058A),
      (0x1058C, 0x10592), (0x10594, 0x10595), (0x10597, 0x105A1), (0x105A3, 0x105B1), (0x105B3, 0x105B9),
      (0x105BB, 0x105BC), (0x10780, 0x10780), (0x10783, 0x10785), (0x10787, 0x107B0), (0x107B2, 0x107BA),
      (0x10C80, 0x10CB2), (0x10CC0, 0x10CF2), (0x118A0, 0x118DF), (0x16E40, 0x16E7F), (0x1D400, 0x1D454),
      (0x1D456, 0x1D49C), (0x1D49E, 0x1D49F), (0x1D4A2, 0x1D4A2), (0x1D4A5, 0x1D4A6), (0x1D4A9, 0x1D4AC),
      (0x1D4AE, 0x1D4B9), (0x1D4BB, 0x1D4BB), (0x1D4BD, 0x1D4C3), (0x1D4C5, 0x1D505), (0x1D507, 0x1D50A),
      (0x1D50D, 0x1D514), (0x1D516, 0x1D51C), (0x1D51E, 0x1D539), (0x1D53B, 0x1D53E), (0x1D540, 0x1D544),
      (0x1D546, 0x1D546), (0x1D54A, 0x1D550), (0x1D552, 0x1D6A5), (0x1D6A8, 0x1D6C0), (0x1D6C2, 0x1D6DA),
      (0x1D6DC, 0x1D6FA), (0x1D6FC, 0x1D714), (0x1D716, 0x1D734), (0x1D736, 0x1D74E), (0x1D750, 0x1D76E),
      (0x1D770, 0x1D788), (0x1D78A, 0x1D7A8), (0x1D7AA, 0x1D7C2), (0x1D7C4, 0x1D7CB), (0x1DF00, 0x1DF09),
      (0x1DF0B, 0x1DF1E), (0x1DF25, 0x1DF2A), (0x1E030, 0x1E06D), (0x1E900, 0x1E943), (0x1F130, 0x1F149),
      (0x1F150, 0x1F169), (0x1F170, 0x1F189)]"

text \<open>The code points with the property Case\_Ignorable, as ranges \<open>(lo, hi)\<close>.\<close>

definition Case_Ignorable :: "(nat \<times> nat) list" where
  "Case_Ignorable =
     [
      (0x27, 0x27), (0x2E, 0x2E), (0x3A, 0x3A), (0x5E, 0x5E), (0x60, 0x60),
      (0xA8, 0xA8), (0xAD, 0xAD), (0xAF, 0xAF), (0xB4, 0xB4), (0xB7, 0xB8),
      (0x2B0, 0x36F), (0x374, 0x375), (0x37A, 0x37A), (0x384, 0x385), (0x387, 0x387),
      (0x483, 0x489), (0x559, 0x559), (0x55F, 0x55F), (0x591, 0x5BD), (0x5BF, 0x5BF),
      (0x5C1, 0x5C2), (0x5C4, 0x5C5), (0x5C7, 0x5C7), (0x5F4, 0x5F4), (0x600, 0x605),
      (0x610, 0x61A), (0x61C, 0x61C), (0x640, 0x640), (0x64B, 0x65F), (0x670, 0x670),
      (0x6D6, 0x6DD), (0x6DF, 0x6E8), (0x6EA, 0x6ED), (0x70F, 0x70F), (0x711, 0x711),
      (0x730, 0x74A), (0x7A6, 0x7B0), (0x7EB, 0x7F5), (0x7FA, 0x7FA), (0x7FD, 0x7FD),
      (0x816, 0x82D), (0x859, 0x85B), (0x888, 0x888), (0x890, 0x891), (0x898, 0x89F),
      (0x8C9, 0x902), (0x93A, 0x93A), (0x93C, 0x93C), (0x941, 0x948), (0x94D, 0x94D),
      (0x951, 0x957), (0x962, 0x963), (0x971, 0x971), (0x981, 0x981), (0x9BC, 0x9BC),
      (0x9C1, 0x9C4), (0x9CD, 0x9CD), (0x9E2, 0x9E3), (0x9FE, 0x9FE), (0xA01, 0xA02),
      (0xA3C, 0xA3C), (0xA41, 0xA42), (0xA47, 0xA48), (0xA4B, 0xA4D), (0xA51, 0xA51),
      (0xA70, 0xA71), (0xA75, 0xA75), (0xA81, 0xA82), (0xABC, 0xABC), (0xAC1, 0xAC5),
      (0xAC7, 0xAC8), (0xACD, 0xACD), (0xAE2, 0xAE3), (0xAFA, 0xAFF), (0xB01, 0xB01),
      (0xB3C, 0xB3C), (0xB3F, 0xB3F), (0xB41, 0xB44), (0xB4D, 0xB4D), (0xB55, 0xB56),
      (0xB62, 0xB63), (0xB82, 0xB82), (0xBC0, 0xBC0), (0xBCD, 0xBCD), (0xC00, 0xC00),
      (0xC04, 0xC04), (0xC3C, 0xC3C), (0xC3E, 0xC40), (0xC46, 0xC48), (0xC4A, 0xC4D),
      (0xC55, 0xC56), (0xC62, 0xC63), (0xC81, 0xC81), (0xCBC, 0xCBC), (0xCBF, 0xCBF),
      (0xCC6, 0xCC6), (0xCCC, 0xCCD), (0xCE2, 0xCE3), (0xD00, 0xD01), (0xD3B, 0xD3C),
      (0xD41, 0xD44), (0xD4D, 0xD4D), (0xD62, 0xD63), (0xD81, 0xD81), (0xDCA, 0xDCA),
      (0xDD2, 0xDD4), (0xDD6, 0xDD6), (0xE31, 0xE31), (0xE34, 0xE3A), (0xE46, 0xE4E),
      (0xEB1, 0xEB1), (0xEB4, 0xEBC), (0xEC6, 0xEC6), (0xEC8, 0xECE), (0xF18, 0xF19),
      (0xF35, 0xF35), (0xF37, 0xF37), (0xF39, 0xF39), (0xF71, 0xF7E), (0xF80, 0xF84),
      (0xF86, 0xF87), (0xF8D, 0xF97), (0xF99, 0xFBC), (0xFC6, 0xFC6), (0x102D, 0x1030),
      (0x1032, 0x1037), (0x1039, 0x103A), (0x103D, 0x103E), (0x1058, 0x1059), (0x105E, 0x1060),
      (0x1071, 0x1074), (0x1082, 0x1082), (0x1085, 0x1086), (0x108D, 0x108D), (0x109D, 0x109D),
      (0x10FC, 0x10FC), (0x135D, 0x135F), (0x1712, 0x1714), (0x1732, 0x1733), (0x1752, 0x1753),
      (0x1772, 0x1773), (0x17B4, 0x17B5), (0x17B7, 0x17BD), (0x17C6, 0x17C6), (0x17C9, 0x17D3),
      (0x17D7, 0x17D7), (0x17DD, 0x17DD), (0x180B, 0x180F), (0x1843, 0x1843), (0x1885, 0x1886),
      (0x18A9, 0x18A9), (0x1920, 0x1922), (0x1927, 0x1928), (0x1932, 0x1932), (0x1939, 0x193B),
      (0x1A17, 0x1A18), (0x1A1B, 0x1A1B), (0x1A56, 0x1A56), (0x1A58, 0x1A5E), (0x1A60, 0x1A60),
      (0x1A62, 0x1A62), (0x1A65, 0x1A6C), (0x1A73, 0x1A7C), (0x1A7F, 0x1A7F), (0x1AA7, 0x1AA7),
      (0x1AB0, 0x1ACE), (0x1B00, 0x1B03), (0x1B34, 0x1B34), (0x1B36, 0x1B3A), (0x1B3C, 0x1B3C),
      (0x1B42, 0x1B42), (0x1B6B, 0x1B73), (0x1B80, 0x1B81), (0x1BA2, 0x1BA5), (0x1BA8, 0x1BA9),
      (0x1BAB, 0x1BAD), (0x1BE6, 0x1BE6), (0x1BE8, 0x1BE9), (0x1BED, 0x1BED), (0x1BEF, 0x1BF1),
      (0x1C2C, 0x1C33), (0x1C36, 0x1C37), (0x1C78, 0x1C7D), (0x1CD0, 0x1CD2), (0x1CD4, 0x1CE0),
      (0x1CE2, 0x1CE8), (0x1CED, 0x1CED), (0x1CF4, 0x1CF4), (0x1CF8, 0x1CF9), (0x1D2C, 0x1D6A),
      (0x1D78, 0x1D78), (0x1D9B, 0x1DFF), (0x1FBD, 0x1FBD), (0x1FBF, 0x1FC1), (0x1FCD, 0x1FCF),
      (0x1FDD, 0x1FDF), (0x1FED, 0x1FEF), (0x1FFD, 0x1FFE), (0x200B, 0x200F), (0x2018, 0x2019),
      (0x2024, 0x2024), (0x2027, 0x2027), (0x202A, 0x202E), (0x2060, 0x2064), (0x2066, 0x206F),
      (0x2071, 0x2071), (0x207F, 0x207F), (0x2090, 0x209C), (0x20D0, 0x20F0), (0x2C7C, 0x2C7D),
      (0x2CEF, 0x2CF1), (0x2D6F, 0x2D6F), (0x2D7F, 0x2D7F), (0x2DE0, 0x2DFF), (0x2E2F, 0x2E2F),
      (0x3005, 0x3005), (0x302A, 0x302D), (0x3031, 0x3035), (0x303B, 0x303B), (0x3099, 0x309E),
      (0x30FC, 0x30FE), (0xA015, 0xA015), (0xA4F8, 0xA4FD), (0xA60C, 0xA60C), (0xA66F, 0xA672),
      (0xA674, 0xA67D), (0xA67F, 0xA67F), (0xA69C, 0xA69F), (0xA6F0, 0xA6F1), (0xA700, 0xA721),
      (0xA770, 0xA770), (0xA788, 0xA78A), (0xA7F2, 0xA7F4), (0xA7F8, 0xA7F9), (0xA802, 0xA802),
      (0xA806, 0xA806), (0xA80B, 0xA80B), (0xA825, 0xA826), (0xA82C, 0xA82C), (0xA8C4, 0xA8C5),
      (0xA8E0, 0xA8F1), (0xA8FF, 0xA8FF), (0xA926, 0xA92D), (0xA947, 0xA951), (0xA980, 0xA982),
      (0xA9B3, 0xA9B3), (0xA9B6, 0xA9B9), (0xA9BC, 0xA9BD), (0xA9CF, 0xA9CF), (0xA9E5, 0xA9E6),
      (0xAA29, 0xAA2E), (0xAA31, 0xAA32), (0xAA35, 0xAA36), (0xAA43, 0xAA43), (0xAA4C, 0xAA4C),
      (0xAA70, 0xAA70), (0xAA7C, 0xAA7C), (0xAAB0, 0xAAB0), (0xAAB2, 0xAAB4), (0xAAB7, 0xAAB8),
      (0xAABE, 0xAABF), (0xAAC1, 0xAAC1), (0xAADD, 0xAADD), (0xAAEC, 0xAAED), (0xAAF3, 0xAAF4),
      (0xAAF6, 0xAAF6), (0xAB5B, 0xAB5F), (0xAB69, 0xAB6B), (0xABE5, 0xABE5), (0xABE8, 0xABE8),
      (0xABED, 0xABED), (0xFB1E, 0xFB1E), (0xFBB2, 0xFBC2), (0xFE00, 0xFE0F), (0xFE13, 0xFE13),
      (0xFE20, 0xFE2F), (0xFE52, 0xFE52), (0xFE55, 0xFE55), (0xFEFF, 0xFEFF), (0xFF07, 0xFF07),
      (0xFF0E, 0xFF0E), (0xFF1A, 0xFF1A), (0xFF3E, 0xFF3E), (0xFF40, 0xFF40), (0xFF70, 0xFF70),
      (0xFF9E, 0xFF9F), (0xFFE3, 0xFFE3), (0xFFF9, 0xFFFB), (0x101FD, 0x101FD), (0x102E0, 0x102E0),
      (0x10376, 0x1037A), (0x10780, 0x10785), (0x10787, 0x107B0), (0x107B2, 0x107BA), (0x10A01, 0x10A03),
      (0x10A05, 0x10A06), (0x10A0C, 0x10A0F), (0x10A38, 0x10A3A), (0x10A3F, 0x10A3F), (0x10AE5, 0x10AE6),
      (0x10D24, 0x10D27), (0x10EAB, 0x10EAC), (0x10EFD, 0x10EFF), (0x10F46, 0x10F50), (0x10F82, 0x10F85),
      (0x11001, 0x11001), (0x11038, 0x11046), (0x11070, 0x11070), (0x11073, 0x11074), (0x1107F, 0x11081),
      (0x110B3, 0x110B6), (0x110B9, 0x110BA), (0x110BD, 0x110BD), (0x110C2, 0x110C2), (0x110CD, 0x110CD),
      (0x11100, 0x11102), (0x11127, 0x1112B), (0x1112D, 0x11134), (0x11173, 0x11173), (0x11180, 0x11181),
      (0x111B6, 0x111BE), (0x111C9, 0x111CC), (0x111CF, 0x111CF), (0x1122F, 0x11231), (0x11234, 0x11234),
      (0x11236, 0x11237), (0x1123E, 0x1123E), (0x11241, 0x11241), (0x112DF, 0x112DF), (0x112E3, 0x112EA),
      (0x11300, 0x11301), (0x1133B, 0x1133C), (0x11340, 0x11340), (0x11366, 0x1136C), (0x11370, 0x11374),
      (0x11438, 0x1143F), (0x11442, 0x11444), (0x11446, 0x11446), (0x1145E, 0x1145E), (0x114B3, 0x114B8),
      (0x114BA, 0x114BA), (0x114BF, 0x114C0), (0x114C2, 0x114C3), (0x115B2, 0x115B5), (0x115BC, 0x115BD),
      (0x115BF, 0x115C0), (0x115DC, 0x115DD), (0x11633, 0x1163A), (0x1163D, 0x1163D), (0x1163F, 0x11640),
      (0x116AB, 0x116AB), (0x116AD, 0x116AD), (0x116B0, 0x116B5), (0x116B7, 0x116B7), (0x1171D, 0x1171F),
      (0x11722, 0x11725), (0x11727, 0x1172B), (0x1182F, 0x11837), (0x11839, 0x1183A), (0x1193B, 0x1193C),
      (0x1193E, 0x1193E), (0x11943, 0x11943), (0x119D4, 0x119D7), (0x119DA, 0x119DB), (0x119E0, 0x119E0),
      (0x11A01, 0x11A0A), (0x11A33, 0x11A38), (0x11A3B, 0x11A3E), (0x11A47, 0x11A47), (0x11A51, 0x11A56),
      (0x11A59, 0x11A5B), (0x11A8A, 0x11A96), (0x11A98, 0x11A99), (0x11C30, 0x11C36), (0x11C38, 0x11C3D),
      (0x11C3F, 0x11C3F), (0x11C92, 0x11CA7), (0x11CAA, 0x11CB0), (0x11CB2, 0x11CB3), (0x11CB5, 0x11CB6),
      (0x11D31, 0x11D36), (0x11D3A, 0x11D3A), (0x11D3C, 0x11D3D), (0x11D3F, 0x11D45), (0x11D47, 0x11D47),
      (0x11D90, 0x11D91), (0x11D95, 0x11D95), (0x11D97, 0x11D97), (0x11EF3, 0x11EF4), (0x11F00, 0x11F01),
      (0x11F36, 0x11F3A), (0x11F40, 0x11F40), (0x11F42, 0x11F42), (0x13430, 0x13440), (0x13447, 0x13455),
      (0x16AF0, 0x16AF4), (0x16B30, 0x16B36), (0x16B40, 0x16B43), (0x16F4F, 0x16F4F), (0x16F8F, 0x16F9F),
      (0x16FE0, 0x16FE1), (0x16FE3, 0x16FE4), (0x1AFF0, 0x1AFF3), (0x1AFF5, 0x1AFFB), (0x1AFFD, 0x1AFFE),
      (0x1BC9D, 0x1BC9E), (0x1BCA0, 0x1BCA3), (0x1CF00, 0x1CF2D), (0x1CF30, 0x1CF46), (0x1D167, 0x1D169),
      (0x1D173, 0x1D182), (0x1D185, 0x1D18B), (0x1D1AA, 0x1D1AD), (0x1D242, 0x1D244), (0x1DA00, 0x1DA36),
      (0x1DA3B, 0x1DA6C), (0x1DA75, 0x1DA75), (0x1DA84, 0x1DA84), (0x1DA9B, 0x1DA9F), (0x1DAA1, 0x1DAAF),
      (0x1E000, 0x1E006), (0x1E008, 0x1E018), (0x1E01B, 0x1E021), (0x1E023, 0x1E024), (0x1E026, 0x1E02A),
      (0x1E030, 0x1E06D), (0x1E08F, 0x1E08F), (0x1E130, 0x1E13D), (0x1E2AE, 0x1E2AE), (0x1E2EC, 0x1E2EF),
      (0x1E4EB, 0x1E4EF), (0x1E8D0, 0x1E8D6), (0x1E944, 0x1E94B), (0x1F3FB, 0x1F3FF), (0xE0001, 0xE0001),
      (0xE0020, 0xE007F), (0xE0100, 0xE01EF)]"

fun simple_lowercase :: "(nat \<times> nat \<times> nat \<times> nat) list \<Rightarrow> nat \<Rightarrow> nat" where
  "simple_lowercase [] cp = cp"
| "simple_lowercase ((lo, hi, step, target) # rows) cp =
     (if lo \<le> cp \<and> cp \<le> hi \<and> (cp - lo) mod step = 0 then target + (cp - lo)
      else simple_lowercase rows cp)"

fun in_ranges :: "(nat \<times> nat) list \<Rightarrow> nat \<Rightarrow> bool" where
  "in_ranges [] cp = False"
| "in_ranges ((lo, hi) # rows) cp =
     (if lo \<le> cp \<and> cp \<le> hi then True else in_ranges rows cp)"

text \<open>
  The first code point of the list that is not case-ignorable is there and is cased. This
  is the test for the context Final\_Sigma, in the order in which the Unicode libraries of
  the JavaScript engines make it: a code point that is both case-ignorable and cased is
  skipped.
\<close>

fun cased_after_ignorable :: "nat list \<Rightarrow> bool" where
  "cased_after_ignorable [] = False"
| "cased_after_ignorable (c # cs) =
     (if in_ranges Case_Ignorable c then cased_after_ignorable cs else in_ranges Cased c)"

text \<open>
  The conversion of the code points \<open>rest\<close>, with the code points before them in
  \<open>before\<close>, the nearest first. The two mappings of \<^verbatim>\<open>SpecialCasing.txt\<close> that do not
  depend on the language: capital sigma (U+03A3) becomes final sigma (U+03C2) when a cased
  letter comes before it and none after it, case-ignorable code points set aside, and small
  sigma (U+03C3) otherwise; capital I with dot above (U+0130) becomes \<^verbatim>\<open>i\<close> and a
  combining dot above.
\<close>

fun toLowercase :: "nat list \<Rightarrow> nat list \<Rightarrow> nat list" where
  "toLowercase before [] = []"
| "toLowercase before (c # rest) =
     (if c = 0x3A3 then
        [if cased_after_ignorable before \<and> \<not> cased_after_ignorable rest then 0x3C2 else 0x3C3]
      else if c = 0x130 then [0x69, 0x307]
      else [simple_lowercase Lowercase_Mapping c])
     @ toLowercase (c # before) rest"

text \<open>\<^verbatim>\<open>s.toLowerCase()\<close>.\<close>

definition toLowerCase :: "jsstring \<Rightarrow> jsstring" where
  "toLowerCase s = CodePointsToString (toLowercase [] (StringToCodePoints s))"

section \<open>Elements and the selector utility\<close>

text \<open>
  The \<^verbatim>\<open>className\<close> property of an element is a string on HTML elements and an
  \<^verbatim>\<open>SVGAnimatedString\<close> object (holding the class attribute as its base value) on SVG
  elements.
\<close>

datatype classNameProp = ClassString jsstring | SVGAnimatedString jsstring

text \<open>
  The properties of an element that \<^verbatim>\<open>getDomSelector\<close> reads (\<open>id'\<close> is the
  \<^verbatim>\<open>id\<close> property).
\<close>

record element =
  id' :: jsstring
  className :: classNameProp
  tagName :: jsstring


text \<open>
  \<^verbatim>\<open>
  function getDomSelector(el: HTMLElement): string {
    if (el.id) return `#${el.id}`;
    if (el.className && typeof el.className === "string") {
      return (
        el.tagName.toLowerCase() + "." + el.className.trim().replace(/\s+/g, ".")
      );
    }
    return el.tagName.toLowerCase();
  }
  \<close>
  A string is truthy when it is not empty; an object is always truthy.
\<close>

definition getDomSelector :: "element \<Rightarrow> jsstring" where
  "getDomSelector el =
     (if id' el \<noteq> [] then js ''#'' @ id' el
      else case className el of
        ClassString c \<Rightarrow>
          (if c \<noteq> [] then toLowerCase (tagName el) @ js ''.'' @ replace_ws (trim c)
           else toLowerCase (tagName el))
      | SVGAnimatedString b \<Rightarrow> toLowerCase (tagName el))"

subsection \<open>The class tokens, as the specification words them\<close>




section \<open>The document and the highlight style\<close>

definition HIGHLIGHT_CLASS :: jsstring where
  "HIGHLIGHT_CLASS = js ''vly-toolbar-highlight''"

text \<open>
  The document, as far as \<^verbatim>\<open>document.getElementById\<close> and
  \<^verbatim>\<open>document.head.appendChild\<close> see it: the elements of the head and the elements of the
  rest of the tree, in tree order.
\<close>

record doc_element = element +
  innerHTML :: jsstring

record document =
  head :: "doc_element list"
  body :: "doc_element list"

definition getElementById :: "document \<Rightarrow> jsstring \<Rightarrow> doc_element option" where
  "getElementById d i = find (\<lambda>e. id' e = i) (head d @ body d)"

text \<open>
  \<^verbatim>\<open>
  const injectHighlightStyle = () => {
    if (document.getElementById("vly-toolbar-style")) return;
    const style = document.createElement("style");
    style.id = "vly-toolbar-style";
    style.innerHTML = `...`;
    document.head.appendChild(style);
  };
  \<close>
\<close>

definition injectHighlightStyle :: "document \<Rightarrow> document" where
  "injectHighlightStyle d =
     (if getElementById d (js ''vly-toolbar-style'') \<noteq> None then d
      else
        let style = \<lparr>id' = js ''vly-toolbar-style'', className = ClassString [],
                      tagName = js ''STYLE'',
                      innerHTML =
                        js ''\<newline>    .'' @ HIGHLIGHT_CLASS @ js '' {\<newline>''
                        @ js ''      outline: 2px solid #0070f3;\<newline>''
                        @ js ''      cursor: pointer;\<newline>''
                        @ js ''      background: rgba(0,112,243,0.08);\<newline>''
                        @ js ''    }\<newline>  ''\<rparr>
        in d\<lparr>head := head d @ [style]\<rparr>)"

text \<open>The number of elements of the document that carry the identifier of the style block.\<close>

definition style_count :: "document \<Rightarrow> nat" where
  "style_count d = length (filter (\<lambda>e. id' e = js ''vly-toolbar-style'') (head d @ body d))"

section \<open>Message data\<close>

text \<open>
  The data of a message event is any structured-cloneable JavaScript value. Numbers are kept
  as far as truthiness tells them apart: an integer value, or NaN.
\<close>

datatype jsvalue =
    JUndefined
  | JNull
  | JBoolean bool
  | JNumber int
  | JNaN
  | JString jsstring
  | JObject "(jsstring \<times> jsvalue) list"

text \<open>\<^verbatim>\<open>!!v\<close>, the truthiness of a value.\<close>

fun truthy :: "jsvalue \<Rightarrow> bool" where
  "truthy JUndefined = False"
| "truthy JNull = False"
| "truthy (JBoolean b) = b"
| "truthy (JNumber n) = (n \<noteq> 0)"
| "truthy JNaN = False"
| "truthy (JString s) = (s \<noteq> [])"
| "truthy (JObject ps) = True"

text \<open>
  \<^verbatim>\<open>v.k\<close> for a truthy value \<open>v\<close> and one of the property names \<^verbatim>\<open>type\<close> and
  \<^verbatim>\<open>enabled\<close>, which no primitive wrapper defines: the own property of an object, and
  \<^verbatim>\<open>undefined\<close> otherwise. (The source reads a property only behind the guard
  \<^verbatim>\<open>event.data &&\<close>, so never from \<^verbatim>\<open>null\<close> or \<^verbatim>\<open>undefined\<close>.)
\<close>

fun getProp :: "jsvalue \<Rightarrow> jsstring \<Rightarrow> jsvalue" where
  "getProp (JObject ps) k = (case map_of ps k of None \<Rightarrow> JUndefined | Some v \<Rightarrow> v)"
| "getProp v k = JUndefined"

text \<open>
  The command of the parent frame,
  \<^verbatim>\<open>{type: "vly-set-selection-mode", enabled: b}\<close>.
\<close>

definition setSelectionMode :: "bool \<Rightarrow> jsvalue" where
  "setSelectionMode b =
     JObject [(js ''type'', JString (js ''vly-set-selection-mode'')), (js ''enabled'', JBoolean b)]"

section \<open>The toolbar and the overlay\<close>

text \<open>An element reference, compared by identity (\<^verbatim>\<open>===\<close>, \<^verbatim>\<open>includes\<close>).\<close>

type_synonym node = nat

text \<open>
  What the component takes from outside: the properties of the element behind a reference,
  as they are when the element is selected, and the two functions imported from
  \<^verbatim>\<open>./getReactComponentHierarchy\<close>, whose source is not part of the development and which
  are taken as total functions into a type \<open>'h\<close> of hierarchy descriptions.
\<close>

record 'h env =
  element_of :: "node \<Rightarrow> element"
  getReactComponentHierarchy :: "node \<Rightarrow> 'h"
  formatReactComponentHierarchy :: "'h \<Rightarrow> jsstring"

text \<open>The object handed to \<^verbatim>\<open>window.parent.postMessage\<close>; \<^verbatim>\<open>undefined\<close> is \<open>None\<close>.\<close>

record 'h select_message =
  msg_type :: jsstring
  selector :: jsstring
  reactHierarchy :: 'h
  reactHierarchyFormatted :: jsstring
  image :: "jsstring option"

text \<open>
  A call of \<^verbatim>\<open>handleSelect\<close> suspended at its \<^verbatim>\<open>await\<close>, with the local variables
  it holds.
\<close>

record 'h capture =
  cap_el :: node
  cap_selector :: jsstring
  cap_hierarchy :: 'h
  cap_formatted :: jsstring

text \<open>
  How the body of the \<^verbatim>\<open>try\<close> block ends: \<^verbatim>\<open>snapdom.toCanvas\<close> rejects or throws,
  \<^verbatim>\<open>canvas.toDataURL\<close> throws, or both succeed with a data URL.
\<close>

datatype snapshot_outcome = ToCanvasFailed | ToDataURLFailed | DataURL jsstring

text \<open>
  A mounted \<^verbatim>\<open>Overlay\<close>: the props its handlers close over and its ref
  \<^verbatim>\<open>lastHovered\<close>.
\<close>

record overlay_inst =
  ignoreList_prop :: "node list"
  selectMode_prop :: bool
  lastHovered :: "node option"

text \<open>
  The state of a mounted \<^verbatim>\<open>VlyToolbar\<close> and of what it acts on: its hooks
  (\<open>selectMode\<close>, \<open>toolbarRef\<close>, the memoised \<open>ignoreList\<close>), the overlay if mounted, the
  document, the set of elements whose class list holds \<^verbatim>\<open>HIGHLIGHT_CLASS\<close>, the calls of
  \<^verbatim>\<open>onHover\<close> and \<^verbatim>\<open>onUnhover\<close> made so far, the suspended calls of
  \<^verbatim>\<open>handleSelect\<close>, the messages posted to the parent window with their target origin, and
  the number of calls of \<^verbatim>\<open>console.error\<close>.
\<close>

record 'h vly =
  selectMode :: bool
  toolbarRef :: "node option"
  ignoreList :: "node list"
  overlay :: "overlay_inst option"
  doc :: document
  highlighted :: "node set"
  hovers :: "node list"
  unhovers :: nat
  pending :: "'h capture list"
  outbox :: "('h select_message \<times> jsstring) list"
  console_errors :: nat

subsection \<open>Mounting and rendering\<close>

text \<open>
  \<^verbatim>\<open>
  const ignoreList = React.useMemo(() => {
    const arr: HTMLElement[] = [];
    if (toolbarRef.current) arr.push(toolbarRef.current);
    return arr;
  }, []);
  \<close>
  The function passed to \<^verbatim>\<open>useMemo\<close>, given the value of \<^verbatim>\<open>toolbarRef.current\<close>.
\<close>

definition computeIgnoreList :: "node option \<Rightarrow> node list" where
  "computeIgnoreList current = (case current of None \<Rightarrow> [] | Some r \<Rightarrow> [] @ [r])"

text \<open>
  The first render: \<^verbatim>\<open>useState(false)\<close>, \<^verbatim>\<open>useRef(null)\<close>, and \<^verbatim>\<open>useMemo\<close>,
  which runs its function during this render and, its dependency list being empty, never
  again. The page is assumed to hold no element with the marker class yet.
\<close>

definition firstRender :: "document \<Rightarrow> 'h vly" where
  "firstRender d =
     (let current = None in
      \<lparr>selectMode = False, toolbarRef = current, ignoreList = computeIgnoreList current,
       overlay = None, doc = d, highlighted = {}, hovers = [], unhovers = 0,
       pending = [], outbox = [], console_errors = 0\<rparr>)"

text \<open>
  The commit of the first render: React attaches the root \<^verbatim>\<open>div\<close> to \<^verbatim>\<open>toolbarRef\<close>,
  then runs the effect, which calls \<^verbatim>\<open>injectHighlightStyle\<close> and registers
  \<^verbatim>\<open>handleMessage\<close>.
\<close>

definition commitMount :: "node \<Rightarrow> 'h vly \<Rightarrow> 'h vly" where
  "commitMount root s = s\<lparr>toolbarRef := Some root, doc := injectHighlightStyle (doc s)\<rparr>"

definition mount :: "node \<Rightarrow> document \<Rightarrow> 'h vly" where
  "mount root d = commitMount root (firstRender d)"

text \<open>
  A later render and its commit, \<^verbatim>\<open>{selectMode && <Overlay ... />}\<close>: the overlay is
  mounted with a fresh \<^verbatim>\<open>lastHovered\<close> ref when \<open>selectMode\<close> is true and there is none,
  keeps its ref and gets the current props when there is one, and is unmounted when
  \<open>selectMode\<close> is false. The overlay has no effect clean-up.
\<close>

definition render :: "'h vly \<Rightarrow> 'h vly" where
  "render s =
     (if selectMode s then
        (case overlay s of
           None \<Rightarrow>
             s\<lparr>overlay := Some \<lparr>ignoreList_prop = ignoreList s, selectMode_prop = selectMode s,
                                lastHovered = None\<rparr>\<rparr>
         | Some ov \<Rightarrow>
             s\<lparr>overlay := Some (ov\<lparr>ignoreList_prop := ignoreList s,
                                    selectMode_prop := selectMode s\<rparr>)\<rparr>)
      else s\<lparr>overlay := None\<rparr>)"

text \<open>
  After a handler has run, React renders again if the handler has set \<open>selectMode\<close> to a
  value other than the one it had; setting the value it has is a bail-out. \<open>s\<close> is the state
  before the handler, \<open>s'\<close> the state after.
\<close>

definition rerender :: "'h vly \<Rightarrow> 'h vly \<Rightarrow> 'h vly" where
  "rerender s s' = (if selectMode s' = selectMode s then s' else render s')"

subsection \<open>The handlers of the toolbar\<close>

text \<open>
  \<^verbatim>\<open>
  function handleMessage(event: MessageEvent) {
    if (event.data && event.data.type === 'vly-set-selection-mode') {
      setSelectMode(!!event.data.enabled);
    }
  }
  \<close>
\<close>

definition handleMessage :: "jsvalue \<Rightarrow> 'h vly \<Rightarrow> 'h vly" where
  "handleMessage data s =
     (if truthy data \<and> getProp data (js ''type'') = JString (js ''vly-set-selection-mode'')
      then s\<lparr>selectMode := truthy (getProp data (js ''enabled''))\<rparr>
      else s)"

text \<open>
  \<^verbatim>\<open>handleSelect\<close> up to its \<^verbatim>\<open>await\<close>: \<^verbatim>\<open>setSelectMode(false)\<close>, the selector, the
  hierarchy and its formatted text, then the call of \<^verbatim>\<open>snapdom.toCanvas\<close>, on whose
  promise the function suspends.
\<close>

definition handleSelect_start :: "'h env \<Rightarrow> node \<Rightarrow> 'h vly \<Rightarrow> 'h vly" where
  "handleSelect_start env el s =
     (let s1 = s\<lparr>selectMode := False\<rparr>;
          selector = getDomSelector (element_of env el);
          hierarchy = getReactComponentHierarchy env el;
          formatted = formatReactComponentHierarchy env hierarchy
      in s1\<lparr>pending := pending s1 @
               [\<lparr>cap_el = el, cap_selector = selector, cap_hierarchy = hierarchy,
                 cap_formatted = formatted\<rparr>]\<rparr>)"

text \<open>
  \<^verbatim>\<open>handleSelect\<close> from the end of the \<^verbatim>\<open>try\<close> block on: a failure is caught and
  logged and leaves \<^verbatim>\<open>imageDataUrl\<close> undefined; then the message is posted.
\<close>

definition handleSelect_resume :: "'h capture \<Rightarrow> snapshot_outcome \<Rightarrow> 'h vly \<Rightarrow> 'h vly" where
  "handleSelect_resume cap outcome s =
     (let (imageDataUrl, s1) =
            (case outcome of
               DataURL url \<Rightarrow> (Some url, s)
             | ToCanvasFailed \<Rightarrow> (None, s\<lparr>console_errors := console_errors s + 1\<rparr>)
             | ToDataURLFailed \<Rightarrow> (None, s\<lparr>console_errors := console_errors s + 1\<rparr>))
      in s1\<lparr>outbox := outbox s1 @
               [(\<lparr>msg_type = js ''vly-toolbar-select'', selector = cap_selector cap,
                  reactHierarchy = cap_hierarchy cap,
                  reactHierarchyFormatted = cap_formatted cap,
                  image = imageDataUrl\<rparr>, js ''*'')]\<rparr>)"

subsection \<open>The handlers of the overlay\<close>

text \<open>
  Each handler is given the element that \<^verbatim>\<open>document.elementFromPoint\<close> returns for the
  event (\<open>None\<close> for \<^verbatim>\<open>null\<close>) and the overlay instance \<open>ov\<close> whose handler it is.
  \<^verbatim>\<open>
  if (!selectMode) return;
  ...
  if (!el || ignoreList.includes(el)) return;
  if (lastHovered.current !== el) {
    if (lastHovered.current)
      lastHovered.current.classList.remove(HIGHLIGHT_CLASS);
    lastHovered.current = el;
    el.classList.add(HIGHLIGHT_CLASS);
    onHover(el);
  }
  \<close>
\<close>

definition handleMouseMove :: "node option \<Rightarrow> overlay_inst \<Rightarrow> 'h vly \<Rightarrow> 'h vly" where
  "handleMouseMove target ov s =
     (if \<not> selectMode_prop ov then s
      else case target of
        None \<Rightarrow> s
      | Some el \<Rightarrow>
          if el \<in> set (ignoreList_prop ov) then s
          else if lastHovered ov \<noteq> Some el then
            (let s1 = (case lastHovered ov of
                         None \<Rightarrow> s
                       | Some prev \<Rightarrow> s\<lparr>highlighted := highlighted s - {prev}\<rparr>);
                 s2 = s1\<lparr>overlay := Some (ov\<lparr>lastHovered := Some el\<rparr>)\<rparr>;
                 s3 = s2\<lparr>highlighted := insert el (highlighted s2)\<rparr>
             in s3\<lparr>hovers := hovers s3 @ [el]\<rparr>)
          else s)"

text \<open>
  \<^verbatim>\<open>
  if (!selectMode) return;
  if (lastHovered.current) {
    lastHovered.current.classList.remove(HIGHLIGHT_CLASS);
    lastHovered.current = null;
  }
  onUnhover();
  \<close>
  (The callback is memoised on \<^verbatim>\<open>onUnhover\<close> alone and so reads the \<open>selectMode\<close> prop of
  the overlay's first render; the overlay is only ever rendered with the prop true.)
\<close>

definition handleMouseLeave :: "overlay_inst \<Rightarrow> 'h vly \<Rightarrow> 'h vly" where
  "handleMouseLeave ov s =
     (if \<not> selectMode_prop ov then s
      else
        let s1 = (case lastHovered ov of
                    None \<Rightarrow> s
                  | Some prev \<Rightarrow>
                      s\<lparr>highlighted := highlighted s - {prev},
                        overlay := Some (ov\<lparr>lastHovered := None\<rparr>)\<rparr>)
        in s1\<lparr>unhovers := unhovers s1 + 1\<rparr>)"

text \<open>
  \<^verbatim>\<open>
  if (!el || ignoreList.includes(el)) return;
  if (lastHovered.current)
    lastHovered.current.classList.remove(HIGHLIGHT_CLASS);
  onSelect(el);
  \<close>
  where \<^verbatim>\<open>onSelect\<close> is \<^verbatim>\<open>handleSelect\<close>, which runs up to its \<^verbatim>\<open>await\<close> inside
  the click handler.
\<close>

definition handleClick :: "'h env \<Rightarrow> node option \<Rightarrow> overlay_inst \<Rightarrow> 'h vly \<Rightarrow> 'h vly" where
  "handleClick env target ov s =
     (case target of
        None \<Rightarrow> s
      | Some el \<Rightarrow>
          if el \<in> set (ignoreList_prop ov) then s
          else
            let s1 = (case lastHovered ov of
                        None \<Rightarrow> s
                      | Some prev \<Rightarrow> s\<lparr>highlighted := highlighted s - {prev}\<rparr>)
            in handleSelect_start env el s1)"

subsection \<open>The event loop\<close>

text \<open>
  The events the mounted toolbar reacts to, each handled to completion: a message from
  another window; a pointer move, a pointer leave and a click on the overlay, with the
  element under the pointer; and the settling of the promise a suspended \<^verbatim>\<open>handleSelect\<close>
  awaits, given by its position among the suspended calls. Pointer events reach a handler
  only while an overlay is mounted. The render that a handler has asked for is done when
  the handler returns, before the next event.
\<close>

datatype event =
    Message jsvalue
  | MouseMove "node option"
  | MouseLeave
  | Click "node option"
  | Settle nat snapshot_outcome

fun step :: "'h env \<Rightarrow> 'h vly \<Rightarrow> event \<Rightarrow> 'h vly" where
  "step env s (Message data) = rerender s (handleMessage data s)"
| "step env s (MouseMove target) =
     (case overlay s of None \<Rightarrow> s | Some ov \<Rightarrow> handleMouseMove target ov s)"
| "step env s MouseLeave =
     (case overlay s of None \<Rightarrow> s | Some ov \<Rightarrow> handleMouseLeave ov s)"
| "step env s (Click target) =
     (case overlay s of None \<Rightarrow> s | Some ov \<Rightarrow> rerender s (handleClick env target ov s))"
| "step env s (Settle i outcome) =
     (if i < length (pending s)
      then handleSelect_resume (pending s ! i) outcome
             (s\<lparr>pending := take i (pending s) @ drop (Suc i) (pending s)\<rparr>)
      else s)"

definition run :: "'h env \<Rightarrow> 'h vly \<Rightarrow> event list \<Rightarrow> 'h vly" where
  "run env s evs = foldl (step env) s evs"

text \<open>
  A click is completed in state \<open>s\<close> when an overlay is mounted and the element under the
  pointer is there and not in the overlay's ignore list; \<open>completed_clicks\<close> counts them
  along a run.
\<close>

fun completed_click :: "'h vly \<Rightarrow> event \<Rightarrow> bool" where
  "completed_click s (Click (Some el)) =
     (case overlay s of None \<Rightarrow> False | Some ov \<Rightarrow> el \<notin> set (ignoreList_prop ov))"
| "completed_click s ev = False"

fun completed_clicks :: "'h env \<Rightarrow> 'h vly \<Rightarrow> event list \<Rightarrow> nat" where
  "completed_clicks env s [] = 0"
| "completed_clicks env s (ev # evs) =
     (if completed_click s ev then 1 else 0) + completed_clicks env (step env s ev) evs"

subsection \<open>A page to run the toolbar on\<close>

text \<open>
  Element 0 is the root \<^verbatim>\<open>div\<close> of the toolbar, element 1 a button with an identifier,
  element 2 a \<^verbatim>\<open>div\<close> with classes, element 3 an SVG element with an identifier and a
  class, element 4 an SVG \<^verbatim>\<open>linearGradient\<close> element with a class and no identifier,
  every other element a bare \<^verbatim>\<open>span\<close>. A hierarchy description is a list of component
  names here.
\<close>

definition example_env :: "jsstring list env" where
  "example_env =
     \<lparr>element_of = (\<lambda>n.
         if n = 0 then \<lparr>id' = [], className = ClassString [], tagName = js ''DIV''\<rparr>
         else if n = 1 then
           \<lparr>id' = js ''save'', className = ClassString (js ''btn primary''), tagName = js ''BUTTON''\<rparr>
         else if n = 2 then
           \<lparr>id' = [], className = ClassString (js ''  card   wide ''), tagName = js ''DIV''\<rparr>
         else if n = 3 then
           \<lparr>id' = js ''icon'', className = SVGAnimatedString (js ''big''), tagName = js ''svg''\<rparr>
         else if n = 4 then
           \<lparr>id' = [], className = SVGAnimatedString (js ''big''),
            tagName = js ''linearGradient''\<rparr>
         else \<lparr>id' = [], className = ClassString [], tagName = js ''SPAN''\<rparr>),
       getReactComponentHierarchy = (\<lambda>n. [js ''App'']),
       formatReactComponentHierarchy = (\<lambda>h. concat h)\<rparr>"

definition empty_document :: document where
  "empty_document = \<lparr>head = [], body = []\<rparr>"

text \<open>The toolbar mounted on that page as element 0, after the parent has enabled picking.\<close>

definition enabled_state :: "jsstring list vly" where
  "enabled_state = step example_env (mount 0 empty_document) (Message (setSelectionMode True))"

text \<open>
  A state of picking on that page in which the overlay was handed an ignore list holding
  the toolbar root, with the pointer resting on the button.
\<close>

definition picking_overlay :: overlay_inst where
  "picking_overlay = \<lparr>ignoreList_prop = [0], selectMode_prop = True, lastHovered = Some 1\<rparr>"

definition picking_state :: "jsstring list vly" where
  "picking_state =
     \<lparr>selectMode = True, toolbarRef = Some 0, ignoreList = [0],
      overlay = Some picking_overlay, doc = injectHighlightStyle empty_document,
      highlighted = {1}, hovers = [1], unhovers = 0, pending = [], outbox = [],
      console_errors = 0\<rparr>"

text \<open>The events that settle a suspended \<^verbatim>\<open>handleSelect\<close>.\<close>

fun is_settle :: "event \<Rightarrow> bool" where
  "is_settle (Settle i outcome) = True"
| "is_settle ev = False"

text \<open>The pointer events that do not select: moves and leaves.\<close>

fun is_hover :: "event \<Rightarrow> bool" where
  "is_hover (MouseMove target) = True"
| "is_hover MouseLeave = True"
| "is_hover ev = False"

text \<open>
  The hover bookkeeping is in order in a state when an overlay is mounted and either it
  stores no hovered element and no element is highlighted, or it stores one, that element
  alone is highlighted, and it is the element of the last hover notification.
\<close>

definition hover_ok :: "'h vly \<Rightarrow> bool" where
  "hover_ok s =
     (case overlay s of
        None \<Rightarrow> False
      | Some ov \<Rightarrow>
          (case lastHovered ov of
             None \<Rightarrow> highlighted s = {}
           | Some e \<Rightarrow> highlighted s = {e} \<and> hovers s \<noteq> [] \<and> last (hovers s) = e))"

text \<open>
  A suspended call holds what \<^verbatim>\<open>handleSelect\<close> computed for its element before the
  \<^verbatim>\<open>await\<close>.
\<close>

definition cap_ok :: "'h env \<Rightarrow> 'h capture \<Rightarrow> bool" where
  "cap_ok env c =
     (cap_selector c = getDomSelector (element_of env (cap_el c))
      \<and> cap_hierarchy c = getReactComponentHierarchy env (cap_el c)
      \<and> cap_formatted c =
          formatReactComponentHierarchy env (getReactComponentHierarchy env (cap_el c)))"

section \<open>Properties of the selector utility\<close>

subsection \<open>Lower case\<close>

text \<open>
  On a string of ASCII code units, \<^verbatim>\<open>toLowerCase\<close> adds 32 to the capital letters and
  keeps the rest.
\<close>

lemma not_lead_ascii: "u < 0x80 \<Longrightarrow> \<not> isLeadSurrogate (u::code_unit)"
  by (simp add: isLeadSurrogate_def word_le_nat_alt word_less_nat_alt)

lemma StringToCodePoints_ascii:
  "\<forall>u\<in>set s. u < 0x80 \<Longrightarrow> StringToCodePoints s = map unat s"
  by (induction s rule: StringToCodePoints.induct) (simp_all add: not_lead_ascii)

lemma simple_lowercase_below:
  "\<forall>row\<in>set rows. cp < fst row \<Longrightarrow> simple_lowercase rows cp = cp"
  by (induction rows cp rule: simple_lowercase.induct) auto

lemma Lowercase_Mapping_rows:
  "Lowercase_Mapping = (0x41, 0x5A, 1, 0x61) # tl Lowercase_Mapping
   \<and> (\<forall>row\<in>set (tl Lowercase_Mapping). 0x80 \<le> fst row)"
  by (simp add: Lowercase_Mapping_def)

lemma simple_lowercase_ascii:
  assumes "cp < 0x80"
  shows "simple_lowercase Lowercase_Mapping cp = (if 0x41 \<le> cp \<and> cp \<le> 0x5A then cp + 0x20 else cp)"
proof -
  have "\<forall>row\<in>set (tl Lowercase_Mapping). cp < fst row"
    using Lowercase_Mapping_rows assms by fastforce
  then have rest: "simple_lowercase (tl Lowercase_Mapping) cp = cp"
    by (rule simple_lowercase_below)
  have rows: "Lowercase_Mapping = (0x41, 0x5A, 1, 0x61) # tl Lowercase_Mapping"
    using Lowercase_Mapping_rows by (rule conjunct1)
  show ?thesis
    by (subst rows) (auto simp: rest)
qed

lemma toLowercase_ascii:
  "\<forall>c\<in>set cps. c < 0x80 \<Longrightarrow>
   toLowercase before cps = map (\<lambda>c. if 0x41 \<le> c \<and> c \<le> 0x5A then c + 0x20 else c) cps"
  by (induction cps arbitrary: before) (simp_all add: simple_lowercase_ascii)

lemma CodePointsToString_units:
  "\<forall>c\<in>set cps. c < 0x10000 \<Longrightarrow> CodePointsToString cps = map of_nat cps"
  by (induction cps) (simp_all add: CodePointsToString_def UTF16EncodeCodePoint_def)

lemma lower_unit:
  "(u::code_unit) < 0x80 \<Longrightarrow>
   of_nat (if 0x41 \<le> unat u \<and> unat u \<le> 0x5A then unat u + 0x20 else unat u) =
   (if 0x41 \<le> u \<and> u \<le> 0x5A then u + 0x20 else u)"
  by (simp add: word_le_nat_alt)

lemma toLowerCase_ascii:
  assumes "\<forall>u\<in>set s. u < 0x80"
  shows "toLowerCase s = map (\<lambda>u. if 0x41 \<le> u \<and> u \<le> 0x5A then u + 0x20 else u) s"
proof -
  have small: "\<forall>c\<in>set (map unat s). c < 0x80"
    using assms by (auto simp: word_less_nat_alt)
  have "\<forall>c\<in>set (map (\<lambda>c. if 0x41 \<le> c \<and> c \<le> 0x5A then c + 0x20 else c) (map unat s)). c < 0x10000"
    using small by auto
  then have "toLowerCase s =
      map of_nat (map (\<lambda>c. if 0x41 \<le> c \<and> c \<le> 0x5A then c + 0x20 else c) (map unat s))"
    unfolding toLowerCase_def StringToCodePoints_ascii [OF assms] toLowercase_ascii [OF small]
    by (rule CodePointsToString_units)
  also have "\<dots> = map (\<lambda>u. if 0x41 \<le> u \<and> u \<le> 0x5A then u + 0x20 else u) s"
    using assms by (simp add: lower_unit)
  finally show ?thesis .
qed

text \<open>Beyond ASCII: a Latin-1 capital, a final sigma, and a sigma that is not final, a
  surrogate pair and the capital I with dot above.\<close>

lemma toLowerCase_latin1: "toLowerCase [0xC9, 0x4C] = [0xE9, 0x6C]"
  by (simp add: toLowerCase_def CodePointsToString_def UTF16EncodeCodePoint_def
        isLeadSurrogate_def Lowercase_Mapping_def)

lemma toLowerCase_final_sigma: "toLowerCase [0x39F, 0x394, 0x39F, 0x3A3] = [0x3BF, 0x3B4, 0x3BF, 0x3C2]"
  by (simp add: toLowerCase_def CodePointsToString_def UTF16EncodeCodePoint_def
        isLeadSurrogate_def Lowercase_Mapping_def Cased_def Case_Ignorable_def)

lemma toLowerCase_special: "toLowerCase [0x3A3, 0x41, 0xD801, 0xDC00, 0x130] = [0x3C3, 0x61, 0xD801, 0xDC28, 0x69, 0x307]"
  by (simp add: toLowerCase_def CodePointsToString_def UTF16EncodeCodePoint_def
        isLeadSurrogate_def isTrailSurrogate_def Lowercase_Mapping_def Cased_def Case_Ignorable_def)

lemma toLowerCase_DIV: "toLowerCase (js ''DIV'') = js ''div''"
  by (subst toLowerCase_ascii) (simp_all add: js_def)

lemma toLowerCase_svg: "toLowerCase (js ''svg'') = js ''svg''"
  by (subst toLowerCase_ascii) (simp_all add: js_def)


subsection \<open>Trimming, replacing and the class tokens\<close>












subsection \<open>The tokens are the words of the attribute, in order\<close>







subsection \<open>The three branches\<close>

text \<open>
  C6. For every element with a non-empty id, the selector is \<^verbatim>\<open>#\<close> followed by that
  id, whatever the class and the tag name of the element are.
\<close>

theorem getDomSelector_id:
  "id' el \<noteq> [] \<Longrightarrow> getDomSelector el = js ''#'' @ id' el"
  by (simp add: getDomSelector_def)

theorem getDomSelector_id_witness:
  "id' (element_of example_env 1) \<noteq> []
   \<and> getDomSelector (element_of example_env 1) = js ''#save''"
proof -
  have nonempty: "id' (element_of example_env 1) \<noteq> []"
    by (simp add: example_env_def js_def)
  have "getDomSelector (element_of example_env 1) = js ''#'' @ id' (element_of example_env 1)"
    by (rule getDomSelector_id [OF nonempty])
  then show ?thesis
    using nonempty by (simp add: example_env_def js_def)
qed





text \<open>
  C10, as stated, at an SVG element with an identifier: \<^verbatim>\<open>className\<close> is not a string,
  yet the selector is \<^verbatim>\<open>#\<close> and the identifier, not the lower-case tag name.
\<close>

theorem getDomSelector_svg_counterexample:
  "className (element_of example_env 3) = SVGAnimatedString (js ''big'')
   \<and> toLowerCase (tagName (element_of example_env 3)) = js ''svg''
   \<and> getDomSelector (element_of example_env 3) = js ''#icon''
   \<and> getDomSelector (element_of example_env 3) \<noteq> toLowerCase (tagName (element_of example_env 3))"
proof -
  have cls: "className (element_of example_env 3) = SVGAnimatedString (js ''big'')"
    by (simp add: example_env_def)
  have tag: "toLowerCase (tagName (element_of example_env 3)) = js ''svg''"
    by (simp add: example_env_def toLowerCase_svg)
  have sel: "getDomSelector (element_of example_env 3) = js ''#icon''"
    by (simp add: example_env_def getDomSelector_def js_def)
  have "js ''#icon'' \<noteq> js ''svg''"
    by (simp add: js_def)
  then show ?thesis
    using cls tag sel by simp
qed

text \<open>
  C10, amended. For every element with an empty id whose \<^verbatim>\<open>className\<close> is not a string
  but an \<^verbatim>\<open>SVGAnimatedString\<close> object, the class branch is skipped and the selector is the
  lower-case tag name alone, whatever the class attribute behind the object holds. The
  lower-case tag name of an ASCII tag name is the tag name with 32 added to each capital
  letter.
\<close>

theorem getDomSelector_svg:
  assumes "id' el = []" and "className el = SVGAnimatedString b"
  shows "getDomSelector el = toLowerCase (tagName el)
    \<and> ((\<forall>u\<in>set (tagName el). u < 0x80) \<longrightarrow>
         getDomSelector el =
           map (\<lambda>u. if 0x41 \<le> u \<and> u \<le> 0x5A then u + 0x20 else u) (tagName el))"
  using assms by (simp add: getDomSelector_def toLowerCase_ascii)

theorem getDomSelector_svg_witness:
  "id' (element_of example_env 4) = []
   \<and> className (element_of example_env 4) = SVGAnimatedString (js ''big'')
   \<and> tagName (element_of example_env 4) = js ''linearGradient''
   \<and> getDomSelector (element_of example_env 4) = js ''lineargradient''"
proof -
  have h1: "id' (element_of example_env 4) = []"
    by (simp add: example_env_def)
  have h2: "className (element_of example_env 4) = SVGAnimatedString (js ''big'')"
    by (simp add: example_env_def)
  have tag: "tagName (element_of example_env 4) = js ''linearGradient''"
    by (simp add: example_env_def)
  have ascii: "\<forall>u\<in>set (tagName (element_of example_env 4)). u < 0x80"
    unfolding tag by (simp add: js_def)
  have "getDomSelector (element_of example_env 4) =
      map (\<lambda>u. if 0x41 \<le> u \<and> u \<le> 0x5A then u + 0x20 else u)
          (tagName (element_of example_env 4))"
    using getDomSelector_svg [OF h1 h2] ascii by blast
  also have "\<dots> = js ''lineargradient''"
    unfolding tag by (simp add: js_def)
  finally show ?thesis
    using h1 h2 tag by blast
qed

section \<open>Properties of the toolbar and the overlay\<close>

subsection \<open>What the events leave alone\<close>

lemmas handler_defs =
  handleMessage_def handleSelect_start_def handleSelect_resume_def
  handleMouseMove_def handleMouseLeave_def handleClick_def render_def rerender_def

lemma step_doc: "doc (step env s ev) = doc s"
  by (cases ev)
     (auto simp: handler_defs Let_def
           split: option.splits snapshot_outcome.splits)

lemma run_doc: "doc (run env s evs) = doc s"
  unfolding run_def by (induction evs arbitrary: s) (simp_all add: step_doc)

lemma step_ignoreList: "ignoreList (step env s ev) = ignoreList s"
  by (cases ev)
     (auto simp: handler_defs Let_def
           split: option.splits snapshot_outcome.splits)

lemma run_ignoreList: "ignoreList (run env s evs) = ignoreList s"
  unfolding run_def by (induction evs arbitrary: s) (simp_all add: step_ignoreList)

lemma step_toolbarRef: "toolbarRef (step env s ev) = toolbarRef s"
  by (cases ev)
     (auto simp: handler_defs Let_def
           split: option.splits snapshot_outcome.splits)

lemma run_toolbarRef: "toolbarRef (run env s evs) = toolbarRef s"
  unfolding run_def by (induction evs arbitrary: s) (simp_all add: step_toolbarRef)

lemma run_Cons: "run env s (ev # evs) = run env (step env s ev) evs"
  by (simp add: run_def)

lemma run_Nil: "run env s [] = s"
  by (simp add: run_def)

subsection \<open>The highlight style\<close>

lemma getElementById_None:
  "getElementById d i = None \<longleftrightarrow> filter (\<lambda>e. id' e = i) (head d @ body d) = []"
  by (auto simp: getElementById_def find_None_iff filter_empty_conv)

lemma style_count_zero:
  "style_count d = 0 \<longleftrightarrow> getElementById d (js ''vly-toolbar-style'') = None"
  by (simp add: style_count_def getElementById_None)

lemma style_count_inject:
  "style_count (injectHighlightStyle d) = (if style_count d = 0 then 1 else style_count d)"
proof (cases "style_count d = 0")
  case True
  then have none: "getElementById d (js ''vly-toolbar-style'') = None"
    by (simp add: style_count_zero)
  have "filter (\<lambda>e. id' e = js ''vly-toolbar-style'') (head d @ body d) = []"
    using none by (simp only: getElementById_None)
  then have "filter (\<lambda>e. id' e = js ''vly-toolbar-style'') (head d) = []"
    and "filter (\<lambda>e. id' e = js ''vly-toolbar-style'') (body d) = []"
    by simp_all
  then show ?thesis
    using True none by (simp add: injectHighlightStyle_def style_count_def Let_def)
next
  case False
  then have "getElementById d (js ''vly-toolbar-style'') \<noteq> None"
    by (simp add: style_count_zero)
  then show ?thesis
    using False by (simp add: injectHighlightStyle_def)
qed

lemma injectHighlightStyle_idem:
  "injectHighlightStyle (injectHighlightStyle d) = injectHighlightStyle d"
proof -
  have "style_count (injectHighlightStyle d) \<noteq> 0"
    by (simp add: style_count_inject)
  then have "getElementById (injectHighlightStyle d) (js ''vly-toolbar-style'') \<noteq> None"
    by (simp add: style_count_zero)
  then show ?thesis
    by (subst injectHighlightStyle_def) simp
qed

text \<open>
  C7. Inserting the style block is idempotent. The toolbar inserts it when it mounts; in a
  document that held at most one element with the identifier before, exactly one element
  carries the identifier after the mount and after any events that follow, enable messages
  among them, and inserting once more would change nothing.
\<close>

theorem injectHighlightStyle_once:
  assumes "style_count d \<le> 1"
  shows "injectHighlightStyle (injectHighlightStyle d) = injectHighlightStyle d
    \<and> style_count (doc (run env (mount root d) evs)) = 1
    \<and> injectHighlightStyle (doc (run env (mount root d) evs)) = doc (run env (mount root d) evs)"
proof -
  have d: "doc (run env (mount root d) evs) = injectHighlightStyle d"
    by (simp add: run_doc mount_def commitMount_def firstRender_def)
  have "style_count (injectHighlightStyle d) = 1"
    using assms by (simp add: style_count_inject)
  then show ?thesis
    by (simp add: d injectHighlightStyle_idem)
qed

theorem injectHighlightStyle_once_witness:
  "style_count empty_document \<le> 1
   \<and> style_count (doc (run example_env (mount 0 empty_document)
        [Message (setSelectionMode True), Message (setSelectionMode True)])) = 1"
proof -
  have small: "style_count empty_document \<le> 1"
    by (simp add: style_count_def empty_document_def)
  show ?thesis
    using small injectHighlightStyle_once [OF small, of example_env 0
      "[Message (setSelectionMode True), Message (setSelectionMode True)]"]
    by blast
qed

subsection \<open>Messages\<close>

lemma handleMessage_setSelectionMode:
  "handleMessage (setSelectionMode b) s = s\<lparr>selectMode := b\<rparr>"
  by (simp add: handleMessage_def setSelectionMode_def js_def)

lemma step_enable_after_mount:
  "step env (mount root d) (Message (setSelectionMode True)) =
     (mount root d)\<lparr>selectMode := True,
       overlay := Some \<lparr>ignoreList_prop = [], selectMode_prop = True, lastHovered = None\<rparr>\<rparr>"
  by (simp add: handleMessage_setSelectionMode rerender_def render_def mount_def
        commitMount_def firstRender_def computeIgnoreList_def)

lemma enabled_state_eq:
  "enabled_state =
     (mount 0 empty_document)\<lparr>selectMode := True,
       overlay := Some \<lparr>ignoreList_prop = [], selectMode_prop = True, lastHovered = None\<rparr>\<rparr>"
  unfolding enabled_state_def by (rule step_enable_after_mount)

text \<open>
  C9. A message whose data is falsy or whose \<^verbatim>\<open>type\<close> is not the string
  \<^verbatim>\<open>vly-set-selection-mode\<close> changes nothing in the state: the flag, the overlay and the
  rest are as before. A message with the tag sets the flag to the truthiness of its
  \<^verbatim>\<open>enabled\<close> field.
\<close>

theorem handleMessage_type_tag:
  "(\<not> (truthy data \<and> getProp data (js ''type'') = JString (js ''vly-set-selection-mode''))
      \<longrightarrow> step env s (Message data) = s)
   \<and> (truthy data \<and> getProp data (js ''type'') = JString (js ''vly-set-selection-mode'')
      \<longrightarrow> selectMode (step env s (Message data)) = truthy (getProp data (js ''enabled'')))"
  by (simp add: handleMessage_def rerender_def render_def split: option.splits)

theorem handleMessage_type_tag_witness:
  "\<not> (truthy (JObject [(js ''type'', JString (js ''ping''))])
        \<and> getProp (JObject [(js ''type'', JString (js ''ping''))]) (js ''type'')
            = JString (js ''vly-set-selection-mode''))
   \<and> step example_env (mount 0 empty_document)
        (Message (JObject [(js ''type'', JString (js ''ping''))])) = mount 0 empty_document
   \<and> truthy (setSelectionMode True)
   \<and> getProp (setSelectionMode True) (js ''type'') = JString (js ''vly-set-selection-mode'')
   \<and> selectMode (step example_env (mount 0 empty_document) (Message (setSelectionMode True)))"
proof -
  have other: "\<not> (truthy (JObject [(js ''type'', JString (js ''ping''))])
        \<and> getProp (JObject [(js ''type'', JString (js ''ping''))]) (js ''type'')
            = JString (js ''vly-set-selection-mode''))"
    by (simp add: js_def)
  have tagged: "truthy (setSelectionMode True)
      \<and> getProp (setSelectionMode True) (js ''type'') = JString (js ''vly-set-selection-mode'')"
    by (simp add: setSelectionMode_def js_def)
  have enabled: "truthy (getProp (setSelectionMode True) (js ''enabled''))"
    by (simp add: setSelectionMode_def js_def)
  have "step example_env (mount 0 empty_document)
        (Message (JObject [(js ''type'', JString (js ''ping''))])) = mount 0 empty_document"
    using handleMessage_type_tag [of "JObject [(js ''type'', JString (js ''ping''))]"
        example_env "mount 0 empty_document"] other
    by blast
  moreover have "selectMode (step example_env (mount 0 empty_document)
        (Message (setSelectionMode True)))"
    using handleMessage_type_tag [of "setSelectionMode True" example_env
        "mount 0 empty_document"] tagged enabled
    by blast
  ultimately show ?thesis
    using other tagged by blast
qed

text \<open>The overlay is mounted exactly when the flag is true, in every state of a run.\<close>

lemma step_overlay_iff_selectMode:
  assumes "(overlay s \<noteq> None) = selectMode s"
  shows "(overlay (step env s ev) \<noteq> None) = selectMode (step env s ev)"
proof (cases ev)
  case (Click target)
  then show ?thesis
    using assms
    by (cases target) (auto simp: handler_defs Let_def split: option.splits)
qed (use assms in \<open>auto simp: handler_defs Let_def split: option.splits snapshot_outcome.splits\<close>)

lemma run_overlay_iff_selectMode:
  "(overlay (run env (mount root d) evs) \<noteq> None) = selectMode (run env (mount root d) evs)"
proof -
  have "(overlay (run env s evs) \<noteq> None) = selectMode (run env s evs)"
    if "(overlay s \<noteq> None) = selectMode s" for s :: "'a vly"
    using that
  proof (induction evs arbitrary: s)
    case Nil
    then show ?case by (simp add: run_Nil)
  next
    case (Cons ev evs)
    show ?case
      unfolding run_Cons by (rule Cons.IH [OF step_overlay_iff_selectMode [OF Cons.prems]])
  qed
  then show ?thesis
    by (simp add: mount_def commitMount_def firstRender_def)
qed

subsection \<open>Pointer moves that resolve to nothing or to an ignored element\<close>

text \<open>
  C8. When the element under the pointer is \<^verbatim>\<open>null\<close> or in the ignore list of the
  overlay, the pointer-move handler returns the state it was given: the stored hovered
  element, the set of highlighted elements and the record of hover notifications are as
  before, and so is everything else.
\<close>

theorem handleMouseMove_ignored:
  assumes "overlay s = Some ov"
    and "target = None \<or> (\<exists>el. target = Some el \<and> el \<in> set (ignoreList_prop ov))"
  shows "step env s (MouseMove target) = s
    \<and> handleMouseMove target ov s = s"
  using assms by (auto simp: handleMouseMove_def)

theorem handleMouseMove_ignored_witness:
  "overlay picking_state = Some picking_overlay
   \<and> 0 \<in> set (ignoreList_prop picking_overlay)
   \<and> step example_env picking_state (MouseMove (Some 0)) = picking_state
   \<and> step example_env picking_state (MouseMove None) = picking_state"
proof -
  have ov: "overlay picking_state = Some picking_overlay"
    by (simp add: picking_state_def)
  have root: "0 \<in> set (ignoreList_prop picking_overlay)"
    by (simp add: picking_overlay_def)
  have "step example_env picking_state (MouseMove (Some 0)) = picking_state"
    using handleMouseMove_ignored [OF ov, of "Some 0" example_env] root by blast
  moreover have "step example_env picking_state (MouseMove None) = picking_state"
    using handleMouseMove_ignored [OF ov, of None example_env] by blast
  ultimately show ?thesis
    using ov root by blast
qed

subsection \<open>Selections\<close>

lemma step_completed_click:
  assumes "overlay s = Some ov" and "selectMode s" and "el \<notin> set (ignoreList_prop ov)"
  shows "step env s (Click (Some el)) =
    (case lastHovered ov of None \<Rightarrow> s | Some prev \<Rightarrow> s\<lparr>highlighted := highlighted s - {prev}\<rparr>)
      \<lparr>selectMode := False, overlay := None,
       pending := pending s @
         [\<lparr>cap_el = el, cap_selector = getDomSelector (element_of env el),
           cap_hierarchy = getReactComponentHierarchy env el,
           cap_formatted =
             formatReactComponentHierarchy env (getReactComponentHierarchy env el)\<rparr>]\<rparr>"
  using assms
  by (cases "lastHovered ov")
     (simp_all add: handleClick_def handleSelect_start_def rerender_def render_def Let_def)

lemma step_Settle:
  assumes "i < length (pending s)"
  shows "step env s (Settle i outcome) =
    s\<lparr>pending := take i (pending s) @ drop (Suc i) (pending s),
      console_errors := (case outcome of DataURL url \<Rightarrow> console_errors s
                         | _ \<Rightarrow> console_errors s + 1),
      outbox := outbox s @
        [(\<lparr>msg_type = js ''vly-toolbar-select'', selector = cap_selector (pending s ! i),
           reactHierarchy = cap_hierarchy (pending s ! i),
           reactHierarchyFormatted = cap_formatted (pending s ! i),
           image = (case outcome of DataURL url \<Rightarrow> Some url | _ \<Rightarrow> None)\<rparr>, js ''*'')]\<rparr>"
  using assms
  by (cases outcome) (simp_all add: handleSelect_resume_def)

lemma step_not_settle:
  assumes "\<not> is_settle ev"
  shows "outbox (step env s ev) = outbox s \<and> (\<exists>more. pending (step env s ev) = pending s @ more)"
  using assms
  by (cases ev)
     (auto simp: handler_defs Let_def split: option.splits)

lemma run_not_settle:
  assumes "\<forall>ev\<in>set evs. \<not> is_settle ev"
  shows "outbox (run env s evs) = outbox s \<and> (\<exists>more. pending (run env s evs) = pending s @ more)"
  using assms
proof (induction evs arbitrary: s)
  case Nil
  then show ?case by (simp add: run_Nil)
next
  case (Cons ev evs)
  from Cons.prems have ev: "\<not> is_settle ev" and evs: "\<forall>ev\<in>set evs. \<not> is_settle ev"
    by simp_all
  obtain m1 where m1: "pending (step env s ev) = pending s @ m1"
    and o1: "outbox (step env s ev) = outbox s"
    using step_not_settle [OF ev, of env s] by blast
  obtain m2 where m2: "pending (run env (step env s ev) evs) = pending (step env s ev) @ m2"
    and o2: "outbox (run env (step env s ev) evs) = outbox (step env s ev)"
    using Cons.IH [OF evs, of "step env s ev"] by blast
  show ?case
    by (simp add: run_Cons m1 m2 o1 o2)
qed

lemma step_one_message_per_click:
  "length (outbox (step env s ev)) + length (pending (step env s ev)) =
   length (outbox s) + length (pending s) + (if completed_click s ev then 1 else 0)"
proof (cases ev)
  case (Settle i outcome)
  show ?thesis
  proof (cases "i < length (pending s)")
    case True
    then have "length (take i (pending s) @ drop (Suc i) (pending s)) + 1 = length (pending s)"
      by (simp add: min_def)
    then show ?thesis
      unfolding Settle step_Settle [OF True] by simp
  next
    case False
    then show ?thesis by (simp add: Settle)
  qed
next
  case (Click target)
  then show ?thesis
    by (cases target) (auto simp: handler_defs Let_def split: option.splits)
qed (auto simp: handler_defs Let_def split: option.splits)

lemma run_one_message_per_click:
  "length (outbox (run env s evs)) + length (pending (run env s evs)) =
   length (outbox s) + length (pending s) + completed_clicks env s evs"
proof (induction evs arbitrary: s)
  case Nil
  show ?case by (simp add: run_Nil)
next
  case (Cons ev evs)
  show ?case
    using Cons.IH [of "step env s ev"] step_one_message_per_click [of env s ev]
    by (simp add: run_Cons)
qed

text \<open>
  C3. A completed click while picking sets the flag to false and unmounts the overlay in
  the click's own step, in which no message is posted and exactly one call of
  \<^verbatim>\<open>handleSelect\<close> is left suspended on its capture. When that capture settles, however
  it ends, exactly one message is posted and the suspended call is gone. Along any run, the
  messages posted and the calls still suspended add up to the completed clicks.
\<close>

theorem click_idle_before_one_message:
  assumes "overlay s = Some ov" and "selectMode s" and "el \<notin> set (ignoreList_prop ov)"
  shows "\<not> selectMode (step env s (Click (Some el)))
    \<and> overlay (step env s (Click (Some el))) = None
    \<and> outbox (step env s (Click (Some el))) = outbox s
    \<and> pending (step env s (Click (Some el))) = pending s @
         [\<lparr>cap_el = el, cap_selector = getDomSelector (element_of env el),
           cap_hierarchy = getReactComponentHierarchy env el,
           cap_formatted =
             formatReactComponentHierarchy env (getReactComponentHierarchy env el)\<rparr>]
    \<and> (\<exists>m. outbox (step env (step env s (Click (Some el))) (Settle (length (pending s)) outcome))
            = outbox s @ [m])
    \<and> pending (step env (step env s (Click (Some el))) (Settle (length (pending s)) outcome))
         = pending s
    \<and> length (outbox (run env s0 evs)) + length (pending (run env s0 evs)) =
         length (outbox s0) + length (pending s0) + completed_clicks env s0 evs"
proof -
  define s1 where "s1 = step env s (Click (Some el))"
  have s1: "\<not> selectMode s1 \<and> overlay s1 = None \<and> outbox s1 = outbox s
      \<and> pending s1 = pending s @
         [\<lparr>cap_el = el, cap_selector = getDomSelector (element_of env el),
           cap_hierarchy = getReactComponentHierarchy env el,
           cap_formatted =
             formatReactComponentHierarchy env (getReactComponentHierarchy env el)\<rparr>]"
    unfolding s1_def step_completed_click [OF assms]
    by (cases "lastHovered ov") simp_all
  then have i: "length (pending s) < length (pending s1)"
    by simp
  have "(\<exists>m. outbox (step env s1 (Settle (length (pending s)) outcome)) = outbox s @ [m])
      \<and> pending (step env s1 (Settle (length (pending s)) outcome)) = pending s"
    unfolding step_Settle [OF i] using s1 by simp
  then show ?thesis
    using s1 run_one_message_per_click [of env s0 evs] unfolding s1_def by blast
qed

theorem click_idle_before_one_message_witness:
  "overlay enabled_state =
     Some \<lparr>ignoreList_prop = [], selectMode_prop = True, lastHovered = None\<rparr>
   \<and> selectMode enabled_state
   \<and> 2 \<notin> set (ignoreList_prop
         \<lparr>ignoreList_prop = [], selectMode_prop = True, lastHovered = None\<rparr>)
   \<and> \<not> selectMode (step example_env enabled_state (Click (Some 2)))
   \<and> overlay (step example_env enabled_state (Click (Some 2))) = None
   \<and> outbox (step example_env enabled_state (Click (Some 2))) = []
   \<and> length (outbox (step example_env (step example_env enabled_state (Click (Some 2)))
        (Settle 0 (DataURL (js ''data:image/png;base64,AAAA''))))) = 1"
proof -
  have ov: "overlay enabled_state =
      Some \<lparr>ignoreList_prop = [], selectMode_prop = True, lastHovered = None\<rparr>"
    by (simp add: enabled_state_eq)
  have mode: "selectMode enabled_state"
    by (simp add: enabled_state_eq)
  have el: "2 \<notin> set (ignoreList_prop
      \<lparr>ignoreList_prop = [], selectMode_prop = True, lastHovered = None\<rparr>)"
    by simp
  have idx: "length (pending enabled_state) = 0"
    by (simp add: enabled_state_eq mount_def commitMount_def firstRender_def)
  have none: "outbox enabled_state = []"
    by (simp add: enabled_state_eq mount_def commitMount_def firstRender_def)
  note click = click_idle_before_one_message [OF ov mode el, of example_env
      "DataURL (js ''data:image/png;base64,AAAA'')" enabled_state "[]", unfolded idx none]
  from click have a: "\<not> selectMode (step example_env enabled_state (Click (Some 2)))"
    and b: "overlay (step example_env enabled_state (Click (Some 2))) = None"
    and c: "outbox (step example_env enabled_state (Click (Some 2))) = []"
    by blast+
  from click obtain m where
    "outbox (step example_env (step example_env enabled_state (Click (Some 2)))
        (Settle 0 (DataURL (js ''data:image/png;base64,AAAA'')))) = [] @ [m]"
    by blast
  then have d: "length (outbox (step example_env (step example_env enabled_state (Click (Some 2)))
        (Settle 0 (DataURL (js ''data:image/png;base64,AAAA''))))) = 1"
    by simp
  show ?thesis
    using ov mode el a b c d by blast
qed

text \<open>
  C2. A completed click, then any events other than the settling of a capture, then the
  failure of the click's capture (\<^verbatim>\<open>toCanvas\<close> rejects or throws, or \<^verbatim>\<open>toDataURL\<close>
  throws): the failure is logged, and exactly one message is added to those posted. Its
  selector is the selector of the clicked element, its hierarchy and formatted hierarchy
  are what the two hierarchy functions give for the element, and its image is undefined.
\<close>

theorem snapshot_failure_still_posts:
  assumes "overlay s = Some ov" and "selectMode s" and "el \<notin> set (ignoreList_prop ov)"
    and "\<forall>ev\<in>set evs. \<not> is_settle ev"
    and "outcome = ToCanvasFailed \<or> outcome = ToDataURLFailed"
  shows "outbox (step env (run env (step env s (Click (Some el))) evs)
                  (Settle (length (pending s)) outcome)) =
    outbox s @
      [(\<lparr>msg_type = js ''vly-toolbar-select'',
         selector = getDomSelector (element_of env el),
         reactHierarchy = getReactComponentHierarchy env el,
         reactHierarchyFormatted =
           formatReactComponentHierarchy env (getReactComponentHierarchy env el),
         image = None\<rparr>, js ''*'')]
    \<and> console_errors (step env (run env (step env s (Click (Some el))) evs)
                  (Settle (length (pending s)) outcome)) =
        console_errors (run env (step env s (Click (Some el))) evs) + 1"
proof -
  define s1 where "s1 = step env s (Click (Some el))"
  define s2 where "s2 = run env s1 evs"
  define cap where "cap =
    \<lparr>cap_el = el, cap_selector = getDomSelector (element_of env el),
     cap_hierarchy = getReactComponentHierarchy env el,
     cap_formatted = formatReactComponentHierarchy env (getReactComponentHierarchy env el)\<rparr>"
  have s1: "outbox s1 = outbox s \<and> pending s1 = pending s @ [cap]"
    unfolding s1_def cap_def step_completed_click [OF assms(1-3)]
    by (cases "lastHovered ov") simp_all
  obtain more where s2: "outbox s2 = outbox s1" "pending s2 = pending s1 @ more"
    using run_not_settle [OF assms(4), of env s1] unfolding s2_def by blast
  have i: "length (pending s) < length (pending s2)"
    by (simp add: s1 s2)
  have at: "pending s2 ! length (pending s) = cap"
    by (simp add: s1 s2 nth_append)
  have "outbox (step env s2 (Settle (length (pending s)) outcome)) =
      outbox s @
        [(\<lparr>msg_type = js ''vly-toolbar-select'', selector = cap_selector cap,
           reactHierarchy = cap_hierarchy cap, reactHierarchyFormatted = cap_formatted cap,
           image = None\<rparr>, js ''*'')]
    \<and> console_errors (step env s2 (Settle (length (pending s)) outcome)) = console_errors s2 + 1"
    unfolding step_Settle [OF i] at using assms(5) s1 s2 by auto
  then show ?thesis
    unfolding s2_def s1_def by (simp add: cap_def)
qed

lemma selector_of_card: "getDomSelector (element_of example_env 2) = js ''div.card.wide''"
proof -
  have "replace_ws (trim (js ''  card   wide '')) = js ''card.wide''"
    by (simp add: trim_def isWhiteSpace_def js_def)
  then show ?thesis
    by (simp add: example_env_def getDomSelector_def toLowerCase_DIV) (simp add: js_def)
qed

theorem snapshot_failure_still_posts_witness:
  "overlay enabled_state =
     Some \<lparr>ignoreList_prop = [], selectMode_prop = True, lastHovered = None\<rparr>
   \<and> selectMode enabled_state
   \<and> 2 \<notin> set (ignoreList_prop
         \<lparr>ignoreList_prop = [], selectMode_prop = True, lastHovered = None\<rparr>)
   \<and> \<not> is_settle (Message (setSelectionMode True))
   \<and> \<not> is_settle (MouseMove (Some 1))
   \<and> outbox (step example_env
        (run example_env (step example_env enabled_state (Click (Some 2)))
           [Message (setSelectionMode True), MouseMove (Some 1)])
        (Settle 0 ToCanvasFailed)) =
      [(\<lparr>msg_type = js ''vly-toolbar-select'', selector = js ''div.card.wide'',
         reactHierarchy = [js ''App''], reactHierarchyFormatted = js ''App'',
         image = None\<rparr>, js ''*'')]"
proof -
  have ov: "overlay enabled_state =
      Some \<lparr>ignoreList_prop = [], selectMode_prop = True, lastHovered = None\<rparr>"
    by (simp add: enabled_state_eq)
  have mode: "selectMode enabled_state"
    by (simp add: enabled_state_eq)
  have el: "2 \<notin> set (ignoreList_prop
      \<lparr>ignoreList_prop = [], selectMode_prop = True, lastHovered = None\<rparr>)"
    by simp
  have evs: "\<forall>ev\<in>set [Message (setSelectionMode True), MouseMove (Some 1)]. \<not> is_settle ev"
    by simp
  have idx: "length (pending enabled_state) = 0"
    by (simp add: enabled_state_eq mount_def commitMount_def firstRender_def)
  have none: "outbox enabled_state = []"
    by (simp add: enabled_state_eq mount_def commitMount_def firstRender_def)
  have h: "getReactComponentHierarchy example_env 2 = [js ''App'']"
    by (simp add: example_env_def)
  have f: "formatReactComponentHierarchy example_env [js ''App''] = js ''App''"
    by (simp add: example_env_def)
  note post = snapshot_failure_still_posts [OF ov mode el evs, of ToCanvasFailed example_env,
      unfolded idx none selector_of_card h f append_Nil]
  have "outbox (step example_env
        (run example_env (step example_env enabled_state (Click (Some 2)))
           [Message (setSelectionMode True), MouseMove (Some 1)])
        (Settle 0 ToCanvasFailed)) =
      [(\<lparr>msg_type = js ''vly-toolbar-select'', selector = js ''div.card.wide'',
         reactHierarchy = [js ''App''], reactHierarchyFormatted = js ''App'',
         image = None\<rparr>, js ''*'')]"
    using post by blast
  then show ?thesis
    using ov mode el by simp
qed

text \<open>
  The same for any selection in flight, however the events interleave: every suspended
  call of a run from the mount holds the selector and the hierarchy of its element, and
  when its capture fails, one message with these and without image is posted.
\<close>

lemma step_cap_ok:
  assumes "\<forall>c\<in>set (pending s). cap_ok env c"
  shows "\<forall>c\<in>set (pending (step env s ev)). cap_ok env c"
proof (cases ev)
  case (Settle i outcome)
  show ?thesis
  proof (cases "i < length (pending s)")
    case True
    have "set (take i (pending s) @ drop (Suc i) (pending s)) \<subseteq> set (pending s)"
      using set_take_subset [of i "pending s"] set_drop_subset [of "Suc i" "pending s"]
      by auto
    then show ?thesis
      unfolding Settle step_Settle [OF True] using assms by auto
  next
    case False
    then show ?thesis using assms by (simp add: Settle)
  qed
next
  case (Click target)
  then show ?thesis
    using assms
    by (cases target)
       (auto simp: handler_defs cap_ok_def Let_def split: option.splits)
qed (use assms in \<open>auto simp: handler_defs Let_def split: option.splits\<close>)

lemma run_cap_ok:
  assumes "\<forall>c\<in>set (pending s). cap_ok env c"
  shows "\<forall>c\<in>set (pending (run env s evs)). cap_ok env c"
  using assms
proof (induction evs arbitrary: s)
  case Nil
  then show ?case by (simp add: run_Nil)
next
  case (Cons ev evs)
  show ?case
    unfolding run_Cons by (rule Cons.IH [OF step_cap_ok [OF Cons.prems]])
qed

lemma settle_failure_any_selection:
  assumes "i < length (pending (run env (mount root d) evs))"
    and "outcome = ToCanvasFailed \<or> outcome = ToDataURLFailed"
  shows "outbox (step env (run env (mount root d) evs) (Settle i outcome)) =
    outbox (run env (mount root d) evs) @
      [(\<lparr>msg_type = js ''vly-toolbar-select'',
         selector = getDomSelector
           (element_of env (cap_el (pending (run env (mount root d) evs) ! i))),
         reactHierarchy = getReactComponentHierarchy env
           (cap_el (pending (run env (mount root d) evs) ! i)),
         reactHierarchyFormatted = formatReactComponentHierarchy env
           (getReactComponentHierarchy env
             (cap_el (pending (run env (mount root d) evs) ! i))),
         image = None\<rparr>, js ''*'')]"
proof -
  have "\<forall>c\<in>set (pending (mount root d :: 'a vly)). cap_ok env c"
    by (simp add: mount_def commitMount_def firstRender_def)
  then have "\<forall>c\<in>set (pending (run env (mount root d) evs)). cap_ok env c"
    by (rule run_cap_ok)
  then have "cap_ok env (pending (run env (mount root d) evs) ! i)"
    using assms(1) by simp
  then show ?thesis
    unfolding step_Settle [OF assms(1)] using assms(2) by (auto simp: cap_ok_def)
qed

subsection \<open>The ignore list\<close>

text \<open>
  C1 fails on the code. \<^verbatim>\<open>useMemo\<close> runs its function in the first render, when
  \<^verbatim>\<open>toolbarRef.current\<close> is still \<^verbatim>\<open>null\<close>, and with an empty dependency list never
  again: after the mount and any events, the ref holds the toolbar root and the ignore list
  is empty. So, once picking is enabled, a pointer move over the toolbar root highlights
  it, and a click on it selects it.
\<close>

theorem ignoreList_misses_toolbar_root:
  "toolbarRef (run env (mount root d) evs) = Some root
   \<and> ignoreList (run env (mount root d) evs) = []
   \<and> highlighted (run env (mount root d)
        [Message (setSelectionMode True), MouseMove (Some root)]) = {root}
   \<and> map cap_el (pending (run env (mount root d)
        [Message (setSelectionMode True), Click (Some root)])) = [root]"
proof -
  have "toolbarRef (run env (mount root d) evs) = Some root"
    by (simp add: run_toolbarRef mount_def commitMount_def)
  moreover have "ignoreList (run env (mount root d) evs) = []"
    by (simp add: run_ignoreList mount_def commitMount_def firstRender_def
          computeIgnoreList_def)
  moreover have "highlighted (run env (mount root d)
        [Message (setSelectionMode True), MouseMove (Some root)]) = {root}"
    unfolding run_Cons run_Nil step_enable_after_mount
    by (simp add: handleMouseMove_def mount_def commitMount_def firstRender_def)
  moreover have "map cap_el (pending (run env (mount root d)
        [Message (setSelectionMode True), Click (Some root)])) = [root]"
    unfolding run_Cons run_Nil step_enable_after_mount
    by (simp add: handleClick_def handleSelect_start_def rerender_def render_def mount_def
          commitMount_def firstRender_def Let_def)
  ultimately show ?thesis by blast
qed

subsection \<open>The highlight marker\<close>

lemma step_hover_ok:
  assumes "hover_ok s" and "is_hover ev"
  shows "hover_ok (step env s ev)"
proof (cases ev)
  case (MouseMove target)
  with assms(1) show ?thesis
    by (auto simp: hover_ok_def handleMouseMove_def Let_def split: option.splits)
next
  case MouseLeave
  with assms(1) show ?thesis
    by (auto simp: hover_ok_def handleMouseLeave_def Let_def split: option.splits)
qed (use assms(2) in simp_all)

text \<open>
  Within one mount of the overlay that starts with the bookkeeping in order, pointer moves
  and leaves keep it in order: at most one element is highlighted, and it is the last one
  reported.
\<close>

lemma run_hover_ok:
  assumes "hover_ok s" and "\<forall>ev\<in>set evs. is_hover ev"
  shows "hover_ok (run env s evs)"
  using assms
proof (induction evs arbitrary: s)
  case Nil
  then show ?case by (simp add: run_Nil)
next
  case (Cons ev evs)
  then show ?case
    by (simp add: run_Cons step_hover_ok)
qed

lemma hover_ok_after_enable:
  "hover_ok (step env (mount root d) (Message (setSelectionMode True)))"
  unfolding step_enable_after_mount
  by (simp add: hover_ok_def mount_def commitMount_def firstRender_def)

text \<open>
  C5 fails on the code when the overlay is unmounted by a disable message while an element
  is highlighted: the overlay has no clean-up, the marker stays on the element, and the next
  overlay starts with an empty \<^verbatim>\<open>lastHovered\<close>. After enable, a move over element 1,
  disable, enable and a move over element 2, the toolbar is picking, elements 1 and 2 both
  carry the marker, and the last element reported is element 2.
\<close>

theorem marker_left_behind_by_disable:
  "selectMode (run env (mount root d)
      [Message (setSelectionMode True), MouseMove (Some 1), Message (setSelectionMode False),
       Message (setSelectionMode True), MouseMove (Some 2)])
   \<and> highlighted (run env (mount root d)
      [Message (setSelectionMode True), MouseMove (Some 1), Message (setSelectionMode False),
       Message (setSelectionMode True), MouseMove (Some 2)]) = {1, 2}
   \<and> hovers (run env (mount root d)
      [Message (setSelectionMode True), MouseMove (Some 1), Message (setSelectionMode False),
       Message (setSelectionMode True), MouseMove (Some 2)]) = [1, 2]
   \<and> highlighted (run env (mount root d)
      [Message (setSelectionMode True), MouseMove (Some 1), Message (setSelectionMode False),
       Message (setSelectionMode True)]) = {1}"
  unfolding run_Cons run_Nil step_enable_after_mount
  by (simp add: handleMessage_setSelectionMode handleMouseMove_def rerender_def render_def
        mount_def commitMount_def firstRender_def computeIgnoreList_def insert_commute)

end
